theory Spec2Isabelle
  imports Main "HOL-Library.Word"
begin

unbundle bit_operations_syntax

section \<open>The thermal HAL of the Renesas Android vendor tree\<close>

text \<open>
  The repository holds two generations of the service: \<^verbatim>\<open>Thermal.cpp\<close> (namespace
  \<^verbatim>\<open>thermal::V2_0::renesas\<close>) and an older file (namespace \<^verbatim>\<open>thermal::V1_1::renesas\<close>).
  Both are embedded; a definition of the older one carries the prefix \<open>V1_1_\<close>, one of
  the newer the prefix \<open>V2_0_\<close> where the two share a name.

  Everything the program reads comes from pseudo-files, so each function takes the
  file system as an argument. Whatever makes the C++ leave a function without returning
  (an uncaught exception, undefined behaviour of the C library) is a value of type
  \<open>fault\<close>, returned on the left of a sum.
\<close>

subsection \<open>Single-precision floating point\<close>

text \<open>
  A C \<^verbatim>\<open>float\<close> is its IEEE-754 binary32 bit pattern: sign (bit 31), biased exponent
  (bits 30..23) and fraction (bits 22..0). The magnitude of a number is counted in units
  of \<open>2\<^sup>-\<^sup>1\<^sup>4\<^sup>9\<close>, the smallest subnormal, so that it is a natural number. An infinity gets
  the magnitude its exponent field would give, which is above every finite one.
\<close>

type_synonym f32 = "32 word"

definition f32_sign :: "f32 \<Rightarrow> bool" where
  "f32_sign x = (2 ^ 31 \<le> unat x)"

definition f32_exponent :: "f32 \<Rightarrow> nat" where
  "f32_exponent x = (unat x div 2 ^ 23) mod 2 ^ 8"

definition f32_fraction :: "f32 \<Rightarrow> nat" where
  "f32_fraction x = unat x mod 2 ^ 23"

definition isnan :: "f32 \<Rightarrow> bool" where
  "isnan x = (f32_exponent x = 255 \<and> f32_fraction x \<noteq> 0)"

definition isinf :: "f32 \<Rightarrow> bool" where
  "isinf x = (f32_exponent x = 255 \<and> f32_fraction x = 0)"

definition f32_magnitude :: "f32 \<Rightarrow> nat" where
  "f32_magnitude x =
     (if f32_exponent x = 0 then f32_fraction x
      else (2 ^ 23 + f32_fraction x) * 2 ^ (f32_exponent x - 1))"

definition f32_scaled :: "f32 \<Rightarrow> int" where
  "f32_scaled x = (if f32_sign x then - int (f32_magnitude x) else int (f32_magnitude x))"

text \<open>The comparisons \<^verbatim>\<open>==\<close> and \<^verbatim>\<open>>=\<close>: false as soon as one side is not a number.\<close>

definition f32_eq :: "f32 \<Rightarrow> f32 \<Rightarrow> bool" where
  "f32_eq a b = (\<not> isnan a \<and> \<not> isnan b \<and> f32_scaled a = f32_scaled b)"

definition f32_ge :: "f32 \<Rightarrow> f32 \<Rightarrow> bool" where
  "f32_ge a b = (\<not> isnan a \<and> \<not> isnan b \<and> f32_scaled b \<le> f32_scaled a)"

fun bit_length :: "nat \<Rightarrow> nat" where
  "bit_length n = (if n = 0 then 0 else Suc (bit_length (n div 2)))"

declare bit_length.simps [simp del]

text \<open>
  \<open>f32_pack s enc\<close> is the pattern with sign \<open>s\<close> and the 31 low bits \<open>enc\<close>; an encoding
  past the largest finite one is an infinity. \<open>round_enc num den\<close> rounds the fraction
  \<open>num / den\<close> (in units of \<open>2\<^sup>-\<^sup>1\<^sup>4\<^sup>9\<close>) to the nearest encoding, ties to the even one:
  \<open>shift\<close> is the exponent field less one, \<open>m\<close> the significand with its leading bit, and
  a significand that rounds up to \<open>2\<^sup>2\<^sup>4\<close> carries into the exponent by the addition.
\<close>

definition f32_pack :: "bool \<Rightarrow> nat \<Rightarrow> f32" where
  "f32_pack s enc = word_of_nat ((if s then 2 ^ 31 else 0) + min enc (255 * 2 ^ 23))"

definition round_enc :: "nat \<Rightarrow> nat \<Rightarrow> nat" where
  "round_enc num den =
     (let k = bit_length (num div den);
          shift = k - 24;
          d = den * 2 ^ shift;
          q = num div d;
          r = num mod d;
          m = (if d < 2 * r \<or> (2 * r = d \<and> odd q) then q + 1 else q)
      in shift * 2 ^ 23 + m)"

definition f32_round :: "bool \<Rightarrow> nat \<Rightarrow> nat \<Rightarrow> f32" where
  "f32_round s num den = f32_pack s (round_enc num den)"

text \<open>The macro \<^verbatim>\<open>NAN\<close> of \<^verbatim>\<open>math.h\<close>: the quiet not-a-number with an empty payload.\<close>

definition NAN :: f32 where
  "NAN = 0x7FC00000"

text \<open>
  Division. Which not-a-number an invalid operation produces depends on the hardware;
  the program never looks at the payload, and the model returns \<open>NAN\<close>.
\<close>

definition f32_div :: "f32 \<Rightarrow> f32 \<Rightarrow> f32" where
  "f32_div a b =
     (let s = (f32_sign a \<noteq> f32_sign b) in
      if isnan a \<or> isnan b then NAN
      else if isinf a then (if isinf b then NAN else f32_pack s (255 * 2 ^ 23))
      else if isinf b then f32_pack s 0
      else if f32_magnitude b = 0 then
        (if f32_magnitude a = 0 then NAN else f32_pack s (255 * 2 ^ 23))
      else f32_round s (f32_magnitude a * 2 ^ 149) (f32_magnitude b))"

text \<open>The conversion of an integer constant to \<^verbatim>\<open>float\<close>.\<close>

definition f32_of_int :: "int \<Rightarrow> f32" where
  "f32_of_int i = f32_round (i < 0) (nat \<bar>i\<bar> * 2 ^ 149) 1"

definition f32_neg :: "f32 \<Rightarrow> f32" where
  "f32_neg x = x XOR 0x80000000"

definition FLT_MAX :: f32 where
  "FLT_MAX = 0x7F7FFFFF"

text \<open>
  The macro \<^verbatim>\<open>UNKNOWN_TEMPERATURE\<close> is not declared in this repository: it comes with
  the platform header \<^verbatim>\<open>hardware/thermal.h\<close> of libhardware, which defines it as
  \<^verbatim>\<open>-FLT_MAX\<close>, the most negative finite \<^verbatim>\<open>float\<close>.
\<close>

definition UNKNOWN_TEMPERATURE :: f32 where
  "UNKNOWN_TEMPERATURE = f32_neg FLT_MAX"

subsection \<open>Strings and the C library\<close>

definition isdigit :: "char \<Rightarrow> bool" where
  "isdigit c = (48 \<le> (of_char c :: nat) \<and> (of_char c :: nat) \<le> 57)"

text \<open>\<^verbatim>\<open>isspace\<close> in the C locale: space, and the controls from tab to carriage return.\<close>

definition isspace :: "char \<Rightarrow> bool" where
  "isspace c = ((of_char c :: nat) = 32 \<or> (9 \<le> (of_char c :: nat) \<and> (of_char c :: nat) \<le> 13))"

definition digit_val :: "char \<Rightarrow> nat" where
  "digit_val c = (of_char c :: nat) - 48"

definition digits_val :: "string \<Rightarrow> nat" where
  "digits_val ds = foldl (\<lambda>acc c. 10 * acc + digit_val c) 0 ds"

definition digit_char :: "nat \<Rightarrow> char" where
  "digit_char n = ''0123456789'' ! n"

fun show_nat :: "nat \<Rightarrow> string" where
  "show_nat n =
     (if n < 10 then [digit_char n]
      else show_nat (n div 10) @ [digit_char (n mod 10)])"

declare show_nat.simps [simp del]

text \<open>What \<^verbatim>\<open>%d\<close> prints.\<close>

definition show_int :: "int \<Rightarrow> string" where
  "show_int i = (if i < 0 then CHR ''-'' # show_nat (nat (- i)) else show_nat (nat i))"

definition ENOENT :: int where
  "ENOENT = 2"

definition EIO :: int where
  "EIO = 5"

text \<open>
  \<^verbatim>\<open>strerror\<close> of the C library (bionic): a number inside the table of error names gives
  its text, any other number, every negative one among them, the text
  \<^verbatim>\<open>Unknown error\<close> followed by the number. Of the table only the rows of the two error
  numbers the program names are written out.
\<close>

definition sys_errlist :: "(nat \<times> string) list" where
  "sys_errlist = [(2, ''No such file or directory''), (5, ''I/O error'')]"

definition strerror :: "int \<Rightarrow> string" where
  "strerror errnum =
     (case (if errnum < 0 then None else map_of sys_errlist (nat errnum)) of
        Some msg \<Rightarrow> msg
      | None \<Rightarrow> ''Unknown error '' @ show_int errnum)"

subsection \<open>The interface types\<close>

text \<open>
  The types generated from the HIDL interface descriptions (not among the sources):
  status, sensor types of the two interface generations, severity levels.
\<close>

datatype ThermalStatusCode = SUCCESS | FAILURE

record ThermalStatus =
  code :: ThermalStatusCode
  debugMessage :: string

datatype TemperatureType_1_0 = UNKNOWN_1_0 | CPU_1_0 | GPU_1_0 | BATTERY_1_0 | SKIN_1_0

datatype TemperatureType =
  UNKNOWN | CPU | GPU | BATTERY | SKIN | USB_PORT | POWER_AMPLIFIER
  | BCL_VOLTAGE | BCL_CURRENT | BCL_PERCENTAGE | NPU

datatype ThrottlingSeverity = NONE | LIGHT | MODERATE | SEVERE | CRITICAL | EMERGENCY | SHUTDOWN

text \<open>\<^verbatim>\<open>static_cast<TemperatureType>\<close> of a 1.0 sensor type keeps the number of the enumerator.\<close>

fun static_cast_TemperatureType :: "TemperatureType_1_0 \<Rightarrow> TemperatureType" where
  "static_cast_TemperatureType UNKNOWN_1_0 = UNKNOWN"
| "static_cast_TemperatureType CPU_1_0 = CPU"
| "static_cast_TemperatureType GPU_1_0 = GPU"
| "static_cast_TemperatureType BATTERY_1_0 = BATTERY"
| "static_cast_TemperatureType SKIN_1_0 = SKIN"

record Temperature_1_0 =
  type_1_0 :: TemperatureType_1_0
  name_1_0 :: string
  currentValue :: f32
  throttlingThreshold :: f32
  shutdownThreshold :: f32
  vrThrottlingThreshold :: f32

record Temperature_2_0 =
  type_2_0 :: TemperatureType
  name_2_0 :: string
  temp_value :: f32
  throttlingStatus :: ThrottlingSeverity

record TemperatureThreshold =
  threshold_type :: TemperatureType
  threshold_name :: string
  hotThrottlingThresholds :: "f32 list"
  coldThrottlingThresholds :: "f32 list"
  threshold_vrThrottlingThreshold :: f32

record CpuUsage =
  cpu_name :: string
  active :: "64 word"
  total :: "64 word"
  isOnline :: bool

typedecl CoolingDevice_1_0

typedecl CoolingDevice_2_0

typedecl CoolingType

datatype fault =
  filesystem_error
  | out_of_range
  | invalid_argument
  | null_stream
  | buffer_overflow

subsection \<open>The file system\<close>

text \<open>
  A file is what the program's reads of it yield: one conversion of a \<^verbatim>\<open>float\<close>, of a
  word or of an \<^verbatim>\<open>int\<close> at its start, or its lines. A conversion meets the end of the
  file before any input (\<open>Eof\<close>), input that does not fit (\<open>Mismatch\<close>), or converts.
  Opening a path that has no file fails. A directory lists the names of its entries in
  the order the iteration gives them.
\<close>

datatype 'a scanned = Eof | Mismatch | Conv 'a

record fs_file =
  scan_float :: "f32 scanned"
  scan_word :: "string scanned"
  scan_int :: "int scanned"
  text_lines :: "string list"

record filesystem =
  directories :: "string \<Rightarrow> string list option"
  files :: "string \<Rightarrow> fs_file option"

subsection \<open>Input file streams of C++\<close>

text \<open>
  A \<^verbatim>\<open>std::ifstream\<close> is the file it has open, if any, and its fail bit. The
  constructor with a file name opens the file. \<^verbatim>\<open>open\<close> on a stream that already has a
  file open fails and sets the fail bit; otherwise it opens the file and, when that
  succeeds, clears the state. \<^verbatim>\<open>close\<close> leaves the state bits alone unless no file was
  open.
\<close>

record ifstream =
  stream_file :: "fs_file option"
  failbit :: bool

definition ifstream_default :: ifstream where
  "ifstream_default = \<lparr>stream_file = None, failbit = False\<rparr>"

definition ifstream_open :: "filesystem \<Rightarrow> string \<Rightarrow> ifstream \<Rightarrow> ifstream" where
  "ifstream_open fs path s =
     (if stream_file s \<noteq> None then s\<lparr>failbit := True\<rparr>
      else case files fs path of
             None \<Rightarrow> s\<lparr>failbit := True\<rparr>
           | Some f \<Rightarrow> \<lparr>stream_file = Some f, failbit = False\<rparr>)"

definition ifstream_path :: "filesystem \<Rightarrow> string \<Rightarrow> ifstream" where
  "ifstream_path fs path =
     (case files fs path of
        None \<Rightarrow> \<lparr>stream_file = None, failbit = True\<rparr>
      | Some f \<Rightarrow> \<lparr>stream_file = Some f, failbit = False\<rparr>)"

definition ifstream_close :: "ifstream \<Rightarrow> ifstream" where
  "ifstream_close s =
     (if stream_file s = None then s\<lparr>failbit := True\<rparr> else s\<lparr>stream_file := None\<rparr>)"

text \<open>
  The extractions \<^verbatim>\<open>>>\<close>. On a stream that is not good nothing is read and the variable
  keeps its value; so it does when only white space is left. Input that is no number
  stores zero. An \<^verbatim>\<open>int\<close> out of range stores the nearest bound.
\<close>

definition extract_float :: "ifstream \<Rightarrow> f32 \<Rightarrow> ifstream \<times> f32" where
  "extract_float s old =
     (if failbit s then (s, old)
      else case stream_file s of
             None \<Rightarrow> (s\<lparr>failbit := True\<rparr>, old)
           | Some f \<Rightarrow>
               (case scan_float f of
                  Eof \<Rightarrow> (s\<lparr>failbit := True\<rparr>, old)
                | Mismatch \<Rightarrow> (s\<lparr>failbit := True\<rparr>, 0)
                | Conv x \<Rightarrow> (s, x)))"

definition INT_MAX :: int where
  "INT_MAX = 2147483647"

definition INT_MIN :: int where
  "INT_MIN = - 2147483648"

definition extract_int :: "ifstream \<Rightarrow> int \<Rightarrow> ifstream \<times> int" where
  "extract_int s old =
     (if failbit s then (s, old)
      else case stream_file s of
             None \<Rightarrow> (s\<lparr>failbit := True\<rparr>, old)
           | Some f \<Rightarrow>
               (case scan_int f of
                  Eof \<Rightarrow> (s\<lparr>failbit := True\<rparr>, old)
                | Mismatch \<Rightarrow> (s\<lparr>failbit := True\<rparr>, 0)
                | Conv i \<Rightarrow>
                    (if i < INT_MIN then (s\<lparr>failbit := True\<rparr>, INT_MIN)
                     else if INT_MAX < i then (s\<lparr>failbit := True\<rparr>, INT_MAX)
                     else (s, i))))"

text \<open>Extraction into a \<^verbatim>\<open>std::string\<close> that was just constructed, hence empty.\<close>

definition extract_string :: "ifstream \<Rightarrow> ifstream \<times> string" where
  "extract_string s =
     (if failbit s then (s, [])
      else case stream_file s of
             None \<Rightarrow> (s\<lparr>failbit := True\<rparr>, [])
           | Some f \<Rightarrow>
               (case scan_word f of
                  Conv w \<Rightarrow> (s, w)
                | _ \<Rightarrow> (s\<lparr>failbit := True\<rparr>, [])))"

subsection \<open>\<^verbatim>\<open>Thermal.cpp\<close>: the 2.0 service\<close>

definition kCpuUsageFile :: string where
  "kCpuUsageFile = ''/proc/stat''"

definition kTemperaturePath :: string where
  "kTemperaturePath = ''/sys/class/thermal''"

definition kThermalZone :: string where
  "kThermalZone = ''thermal_zone''"

definition kThrottlingThreshold :: f32 where
  "kThrottlingThreshold = f32_of_int 100"

definition kShutdownThreshold :: f32 where
  "kShutdownThreshold = f32_of_int 120"

definition finalizeTemperature :: "f32 \<Rightarrow> f32" where
  "finalizeTemperature temperature =
     (if f32_eq temperature UNKNOWN_TEMPERATURE then NAN else temperature)"

text \<open>\<^verbatim>\<open>entry.path()\<close> with a component appended.\<close>

definition path_append :: "string \<Rightarrow> string \<Rightarrow> string" where
  "path_append dir component = dir @ ''/'' @ component"

text \<open>The sample \<^verbatim>\<open>getTemperaturesHelper\<close> fills in for a zone, from its label and its reading.\<close>

definition V2_0_temperature :: "string \<Rightarrow> f32 \<Rightarrow> Temperature_1_0" where
  "V2_0_temperature name temp =
     \<lparr>type_1_0 = CPU_1_0,
      name_1_0 = name,
      currentValue = f32_div temp (f32_of_int 1000),
      throttlingThreshold = finalizeTemperature kThrottlingThreshold,
      shutdownThreshold = finalizeTemperature kShutdownThreshold,
      vrThrottlingThreshold = finalizeTemperature UNKNOWN_TEMPERATURE\<rparr>"

text \<open>
  The loop of \<^verbatim>\<open>getTemperaturesHelper\<close> over the directory: \<open>temp\<close> is the variable
  declared before the loop, which lives across the iterations. The stream \<^verbatim>\<open>fs\<close> is
  constructed with the name of the \<^verbatim>\<open>temp\<close> file and then opened with it once more.
\<close>

fun helper_loop ::
  "filesystem \<Rightarrow> string list \<Rightarrow> f32 \<Rightarrow> Temperature_1_0 list \<Rightarrow> Temperature_1_0 list" where
  "helper_loop fs [] temp temperatures = temperatures"
| "helper_loop fs (filenameStr # entries) temp temperatures =
     (if take (length kThermalZone) filenameStr = kThermalZone then
        (let tempFileName = path_append (path_append kTemperaturePath filenameStr) ''temp'';
             fs0 = ifstream_path fs tempFileName;
             fs1 = ifstream_open fs tempFileName fs0
         in if failbit fs1 then helper_loop fs entries temp temperatures
            else
              (let (fs2, temp') = extract_float fs1 temp;
                   fs3 = ifstream_close fs2;
                   typeFileName = path_append (path_append kTemperaturePath filenameStr) ''type'';
                   fs4 = ifstream_open fs typeFileName fs3
               in if failbit fs4 then helper_loop fs entries temp' temperatures
                  else
                    (let (fs5, name) = extract_string fs4
                     in helper_loop fs entries temp'
                          (temperatures @ [V2_0_temperature name temp']))))
      else helper_loop fs entries temp temperatures)"

text \<open>
  \<^verbatim>\<open>directory_iterator\<close> throws \<^verbatim>\<open>filesystem_error\<close> when the directory cannot be opened;
  nothing in the service catches it.
\<close>

definition getTemperaturesHelper :: "filesystem \<Rightarrow> fault + Temperature_1_0 list" where
  "getTemperaturesHelper fs =
     (case directories fs kTemperaturePath of
        None \<Rightarrow> Inl filesystem_error
      | Some entries \<Rightarrow> Inr (helper_loop fs entries 0 []))"

definition V2_0_getTemperatures ::
  "filesystem \<Rightarrow> fault + ThermalStatus \<times> Temperature_1_0 list" where
  "V2_0_getTemperatures fs =
     (case getTemperaturesHelper fs of
        Inl e \<Rightarrow> Inl e
      | Inr temperatures \<Rightarrow>
          (let status = \<lparr>code = SUCCESS, debugMessage = []\<rparr>;
               status = (if length temperatures = 0
                         then \<lparr>code = FAILURE, debugMessage = strerror (- ENOENT)\<rparr>
                         else status)
           in Inr (status, temperatures)))"

definition V2_0_getCoolingDevices :: "ThermalStatus \<times> CoolingDevice_1_0 list" where
  "V2_0_getCoolingDevices = (\<lparr>code = FAILURE, debugMessage = ''No cooling devices''\<rparr>, [])"

definition getCurrentCoolingDevices ::
  "bool \<Rightarrow> CoolingType \<Rightarrow> ThermalStatus \<times> CoolingDevice_2_0 list" where
  "getCurrentCoolingDevices filterType type' =
     (\<lparr>code = FAILURE, debugMessage = ''No cooling devices''\<rparr>, [])"

text \<open>The loop of \<^verbatim>\<open>getCurrentTemperatures\<close> over the 1.0 samples.\<close>

fun current_loop ::
  "bool \<Rightarrow> TemperatureType \<Rightarrow> Temperature_1_0 list \<Rightarrow> Temperature_2_0 list" where
  "current_loop filterType type' [] = []"
| "current_loop filterType type' (temp # temperatures_1_0) =
     (let type_1_0' = static_cast_TemperatureType (type_1_0 temp) in
      if \<not> filterType \<or> type' = type_1_0' then
        \<lparr>type_2_0 = type_1_0',
         name_2_0 = name_1_0 temp,
         temp_value = currentValue temp,
         throttlingStatus = NONE\<rparr> # current_loop filterType type' temperatures_1_0
      else current_loop filterType type' temperatures_1_0)"

definition getCurrentTemperatures ::
  "filesystem \<Rightarrow> bool \<Rightarrow> TemperatureType \<Rightarrow> fault + ThermalStatus \<times> Temperature_2_0 list" where
  "getCurrentTemperatures fs filterType type' =
     (case getTemperaturesHelper fs of
        Inl e \<Rightarrow> Inl e
      | Inr temperatures_1_0 \<Rightarrow>
          (let status = \<lparr>code = SUCCESS, debugMessage = []\<rparr>;
               (status, temperatures) =
                 (if length temperatures_1_0 = 0
                  then (\<lparr>code = FAILURE, debugMessage = strerror (- ENOENT)\<rparr>, [])
                  else (status, current_loop filterType type' temperatures_1_0));
               status = (if length temperatures = 0
                         then \<lparr>code = FAILURE, debugMessage = strerror (- ENOENT)\<rparr>
                         else status)
           in Inr (status, temperatures)))"

text \<open>The two threshold arrays \<^verbatim>\<open>getTemperatureThresholds\<close> fills in, one entry per severity.\<close>

definition hot_thresholds :: "f32 list" where
  "hot_thresholds = [NAN, NAN, NAN, kThrottlingThreshold, NAN, NAN, kShutdownThreshold]"

definition cold_thresholds :: "f32 list" where
  "cold_thresholds = [NAN, NAN, NAN, NAN, NAN, NAN, NAN]"

fun thresholds_loop :: "filesystem \<Rightarrow> string list \<Rightarrow> TemperatureThreshold list" where
  "thresholds_loop fs [] = []"
| "thresholds_loop fs (filenameStr # entries) =
     (if take (length kThermalZone) filenameStr = kThermalZone then
        (let typeFileName = path_append (path_append kTemperaturePath filenameStr) ''type'';
             fs1 = ifstream_open fs typeFileName ifstream_default
         in if failbit fs1 then thresholds_loop fs entries
            else
              (let (fs2, name) = extract_string fs1 in
               \<lparr>threshold_type = CPU,
                threshold_name = name,
                hotThrottlingThresholds = hot_thresholds,
                coldThrottlingThresholds = cold_thresholds,
                threshold_vrThrottlingThreshold = NAN\<rparr> # thresholds_loop fs entries))
      else thresholds_loop fs entries)"

definition getTemperatureThresholds ::
  "filesystem \<Rightarrow> bool \<Rightarrow> TemperatureType \<Rightarrow> fault + ThermalStatus \<times> TemperatureThreshold list" where
  "getTemperatureThresholds fs filterType type' =
     (if filterType \<and> type' \<noteq> CPU
      then Inr (\<lparr>code = FAILURE, debugMessage = ''Wrong filter type''\<rparr>, [])
      else case directories fs kTemperaturePath of
             None \<Rightarrow> Inl filesystem_error
           | Some entries \<Rightarrow>
               Inr (\<lparr>code = SUCCESS, debugMessage = []\<rparr>, thresholds_loop fs entries))"

text \<open>
  The regular expression \<^verbatim>\<open>cpu([0-9]+)( [0-9]+)( [0-9]+)( [0-9]+)( [0-9]+)(.*)\<close>. A run of
  digits is followed by a character that is no digit, so the greedy match of each group
  is the only one; the last group matches any rest. \<open>regex_search\<close> tries every start
  from the left and gives the groups 1 to 5 of the first match.
\<close>

definition digits1 :: "string \<Rightarrow> (string \<times> string) option" where
  "digits1 s =
     (let ds = takeWhile isdigit s in
      if ds = [] then None else Some (ds, dropWhile isdigit s))"

definition space_digits :: "string \<Rightarrow> (string \<times> string) option" where
  "space_digits s =
     (case s of
        [] \<Rightarrow> None
      | c # r \<Rightarrow>
          (if c = CHR '' '' then
             (case digits1 r of None \<Rightarrow> None | Some (ds, rest) \<Rightarrow> Some (c # ds, rest))
           else None))"

definition regex_match_here ::
  "string \<Rightarrow> (string \<times> string \<times> string \<times> string \<times> string) option" where
  "regex_match_here s =
     (if take 3 s = ''cpu'' then
        (case digits1 (drop 3 s) of
           None \<Rightarrow> None
         | Some (g1, r1) \<Rightarrow>
        (case space_digits r1 of
           None \<Rightarrow> None
         | Some (g2, r2) \<Rightarrow>
        (case space_digits r2 of
           None \<Rightarrow> None
         | Some (g3, r3) \<Rightarrow>
        (case space_digits r3 of
           None \<Rightarrow> None
         | Some (g4, r4) \<Rightarrow>
        (case space_digits r4 of
           None \<Rightarrow> None
         | Some (g5, r5) \<Rightarrow> Some (g1, g2, g3, g4, g5))))))
      else None)"

fun regex_search ::
  "string \<Rightarrow> (string \<times> string \<times> string \<times> string \<times> string) option" where
  "regex_search [] = regex_match_here []"
| "regex_search (c # s) =
     (case regex_match_here (c # s) of
        Some m \<Rightarrow> Some m
      | None \<Rightarrow> regex_search s)"

text \<open>
  \<^verbatim>\<open>std::stoi\<close> and \<^verbatim>\<open>std::stoull\<close> on a run of digits after optional white space, the
  only strings the program passes: a value that does not fit the result type throws
  \<^verbatim>\<open>std::out_of_range\<close>.
\<close>

definition stoi :: "string \<Rightarrow> fault + int" where
  "stoi s =
     (let ds = takeWhile isdigit (dropWhile isspace s) in
      if ds = [] then Inl invalid_argument
      else if INT_MAX < int (digits_val ds) then Inl out_of_range
      else Inr (int (digits_val ds)))"

definition stoull :: "string \<Rightarrow> fault + 64 word" where
  "stoull s =
     (let ds = takeWhile isdigit (dropWhile isspace s) in
      if ds = [] then Inl invalid_argument
      else if 2 ^ 64 \<le> digits_val ds then Inl out_of_range
      else Inr (word_of_nat (digits_val ds)))"

text \<open>
  The body of the loop of \<^verbatim>\<open>getCpuUsages\<close>, in two steps. \<open>V2_0_counters\<close> is the match
  and the five conversions: \<open>None\<close> when the line has no match, which skips it, else the
  matched digits of the core with the numbers, or the exception of a conversion.
  \<open>V2_0_cpu_line\<close> adds the sums and the look at the \<^verbatim>\<open>online\<close> file; \<open>isOnline0\<close> is the
  variable \<^verbatim>\<open>isOnline\<close>, declared before the loop: it keeps its value where an iteration
  does not assign it, so the new value is returned with the sample.
\<close>

definition V2_0_counters ::
  "string \<Rightarrow> (fault + string \<times> int \<times> 64 word \<times> 64 word \<times> 64 word \<times> 64 word) option" where
  "V2_0_counters tmp =
     (case regex_search tmp of
        None \<Rightarrow> None
      | Some (sm1, sm2, sm3, sm4, sm5) \<Rightarrow>
          Some
           (case stoi sm1 of
              Inl e \<Rightarrow> Inl e
            | Inr cpuNum \<Rightarrow>
           (case stoull sm2 of
              Inl e \<Rightarrow> Inl e
            | Inr user \<Rightarrow>
           (case stoull sm3 of
              Inl e \<Rightarrow> Inl e
            | Inr nice \<Rightarrow>
           (case stoull sm4 of
              Inl e \<Rightarrow> Inl e
            | Inr system \<Rightarrow>
           (case stoull sm5 of
              Inl e \<Rightarrow> Inl e
            | Inr idle \<Rightarrow> Inr (sm1, cpuNum, user, nice, system, idle)))))))"

definition V2_0_cpu_line ::
  "filesystem \<Rightarrow> int \<Rightarrow> string \<Rightarrow> (fault + CpuUsage \<times> int) option" where
  "V2_0_cpu_line fs isOnline0 tmp =
     (case V2_0_counters tmp of
        None \<Rightarrow> None
      | Some (Inl e) \<Rightarrow> Some (Inl e)
      | Some (Inr (sm1, cpuNum, user, nice, system, idle)) \<Rightarrow>
          (let active' = user + nice + system;
               total' = active' + idle;
               cpuName = ''CPU'' @ sm1;
               cpuOnlineFileName = ''/sys/devices/system/cpu/cpu'' @ sm1 @ ''/online'';
               cpuOnlineFs = ifstream_path fs cpuOnlineFileName;
               isOnline1 = (if failbit cpuOnlineFs then (if cpuNum = 0 then 1 else 0)
                            else isOnline0);
               (cpuOnlineFs', isOnline2) = extract_int cpuOnlineFs isOnline1
           in Some (Inr (\<lparr>cpu_name = cpuName, active = active', total = total',
                           isOnline = (isOnline2 \<noteq> 0)\<rparr>, isOnline2))))"

fun V2_0_cpu_loop ::
  "filesystem \<Rightarrow> string list \<Rightarrow> int \<Rightarrow> CpuUsage list \<Rightarrow> fault + CpuUsage list" where
  "V2_0_cpu_loop fs [] isOnline0 cpuUsages = Inr cpuUsages"
| "V2_0_cpu_loop fs (tmp # lines) isOnline0 cpuUsages =
     (case V2_0_cpu_line fs isOnline0 tmp of
        None \<Rightarrow> V2_0_cpu_loop fs lines isOnline0 cpuUsages
      | Some (Inl e) \<Rightarrow> Inl e
      | Some (Inr (usage, isOnline2)) \<Rightarrow>
          V2_0_cpu_loop fs lines isOnline2 (cpuUsages @ [usage]))"

definition V2_0_getCpuUsages :: "filesystem \<Rightarrow> fault + ThermalStatus \<times> CpuUsage list" where
  "V2_0_getCpuUsages fs =
     (case files fs kCpuUsageFile of
        None \<Rightarrow> Inr (\<lparr>code = FAILURE, debugMessage = []\<rparr>, [])
      | Some f \<Rightarrow>
          (case V2_0_cpu_loop fs (text_lines f) 0 [] of
             Inl e \<Rightarrow> Inl e
           | Inr cpuUsages \<Rightarrow> Inr (\<lparr>code = SUCCESS, debugMessage = []\<rparr>, cpuUsages)))"

text \<open>
  The registry of the 2.0 service: \<^verbatim>\<open>callbacks_\<close>, a vector of settings. A listener is
  a strong pointer, \<open>None\<close> when null; \<^verbatim>\<open>interfacesEqual\<close> compares the identity of the
  remote objects, here a number.
\<close>

record CallbackSetting =
  callback :: nat
  is_filter_type :: bool
  setting_type :: TemperatureType

definition interfacesEqual :: "nat \<Rightarrow> nat \<Rightarrow> bool" where
  "interfacesEqual left right = (left = right)"

definition registerThermalChangedCallback ::
  "nat option \<Rightarrow> bool \<Rightarrow> TemperatureType \<Rightarrow> CallbackSetting list
     \<Rightarrow> ThermalStatus \<times> CallbackSetting list" where
  "registerThermalChangedCallback cb filterType type' callbacks =
     (case cb of
        None \<Rightarrow> (\<lparr>code = FAILURE, debugMessage = ''Invalid nullptr callback''\<rparr>, callbacks)
      | Some c \<Rightarrow>
          (if list_ex (\<lambda>s. interfacesEqual (callback s) c) callbacks then
             (\<lparr>code = FAILURE, debugMessage = ''Same callback interface registered already''\<rparr>,
              callbacks)
           else
             (\<lparr>code = SUCCESS, debugMessage = []\<rparr>,
              callbacks @ [\<lparr>callback = c, is_filter_type = filterType, setting_type = type'\<rparr>])))"

text \<open>
  \<^verbatim>\<open>remove_if\<close> with \<^verbatim>\<open>erase\<close> keeps the settings the predicate rejects, in their order;
  \<open>removed\<close> is set when the predicate accepted one.
\<close>

definition unregisterThermalChangedCallback ::
  "nat option \<Rightarrow> CallbackSetting list \<Rightarrow> ThermalStatus \<times> CallbackSetting list" where
  "unregisterThermalChangedCallback cb callbacks =
     (case cb of
        None \<Rightarrow> (\<lparr>code = FAILURE, debugMessage = ''Invalid nullptr callback''\<rparr>, callbacks)
      | Some c \<Rightarrow>
          (let removed = list_ex (\<lambda>s. interfacesEqual (callback s) c) callbacks;
               callbacks' = filter (\<lambda>s. \<not> interfacesEqual (callback s) c) callbacks
           in if \<not> removed then
                (\<lparr>code = FAILURE, debugMessage = ''The callback was not registered before''\<rparr>,
                 callbacks')
              else (\<lparr>code = SUCCESS, debugMessage = []\<rparr>, callbacks')))"

subsection \<open>The 1.1 service\<close>

definition MAX_LENGTH :: nat where
  "MAX_LENGTH = 50"

definition TEMP_NAME_LENGTH :: nat where
  "TEMP_NAME_LENGTH = 15"

definition CPU_USAGE_FILE :: string where
  "CPU_USAGE_FILE = ''/proc/stat''"

definition TEMPERATURE_DIR :: string where
  "TEMPERATURE_DIR = ''/sys/class/thermal''"

definition THERMAL_DIR :: string where
  "THERMAL_DIR = ''thermal_zone''"

definition THROTTLING_THRESHOLD :: int where
  "THROTTLING_THRESHOLD = 100"

definition SHUTDOWN_THRESHOLD :: int where
  "SHUTDOWN_THRESHOLD = 120"

text \<open>
  \<^verbatim>\<open>snprintf\<close> into a buffer of \<open>n\<close> bytes keeps the first \<open>n - 1\<close> characters. The 1.1
  file has a \<^verbatim>\<open>finalizeTemperature\<close> of its own with the same body as the one above.
\<close>

definition snprintf :: "nat \<Rightarrow> string \<Rightarrow> string" where
  "snprintf n s = take (n - 1) s"

text \<open>
  The loop of \<^verbatim>\<open>getTemperatures\<close> over the directory. The second \<^verbatim>\<open>fopen\<close> is not
  checked, so \<^verbatim>\<open>fscanf\<close> gets a null stream when the \<^verbatim>\<open>type\<close> file cannot be opened;
  \<^verbatim>\<open>%s\<close> has no width, so a label of \<open>TEMP_NAME_LENGTH\<close> characters or more is written
  past the end of \<^verbatim>\<open>name\<close>. C defines neither.
\<close>

definition V1_1_temperature :: "string \<Rightarrow> f32 \<Rightarrow> Temperature_1_0" where
  "V1_1_temperature name temp =
     \<lparr>type_1_0 = CPU_1_0,
      name_1_0 = name,
      currentValue = f32_div temp (f32_of_int 1000),
      throttlingThreshold = finalizeTemperature (f32_of_int THROTTLING_THRESHOLD),
      shutdownThreshold = finalizeTemperature (f32_of_int SHUTDOWN_THRESHOLD),
      vrThrottlingThreshold = finalizeTemperature UNKNOWN_TEMPERATURE\<rparr>"

fun V1_1_temperatures_loop ::
  "filesystem \<Rightarrow> string list \<Rightarrow> Temperature_1_0 list \<Rightarrow> fault + Temperature_1_0 list" where
  "V1_1_temperatures_loop fs [] temperatures = Inr temperatures"
| "V1_1_temperatures_loop fs (d_name # entries) temperatures =
     (if take (length THERMAL_DIR) d_name = THERMAL_DIR then
        (case files fs (snprintf MAX_LENGTH (TEMPERATURE_DIR @ ''/'' @ d_name @ ''/temp'')) of
           None \<Rightarrow> V1_1_temperatures_loop fs entries temperatures
         | Some file \<Rightarrow>
        (case scan_float file of
           Conv temp \<Rightarrow>
             (case files fs (snprintf MAX_LENGTH (TEMPERATURE_DIR @ ''/'' @ d_name @ ''/type'')) of
                None \<Rightarrow> Inl null_stream
              | Some file' \<Rightarrow>
             (case scan_word file' of
                Conv name \<Rightarrow>
                  (if TEMP_NAME_LENGTH \<le> length name then Inl buffer_overflow
                   else
                     V1_1_temperatures_loop fs entries
                       (temperatures @ [V1_1_temperature name temp]))
              | _ \<Rightarrow> V1_1_temperatures_loop fs entries temperatures))
         | _ \<Rightarrow> V1_1_temperatures_loop fs entries temperatures))
      else V1_1_temperatures_loop fs entries temperatures)"

definition V1_1_getTemperatures ::
  "filesystem \<Rightarrow> fault + ThermalStatus \<times> Temperature_1_0 list" where
  "V1_1_getTemperatures fs =
     (case directories fs TEMPERATURE_DIR of
        None \<Rightarrow> Inr (\<lparr>code = FAILURE, debugMessage = []\<rparr>, [])
      | Some entries \<Rightarrow>
          (case V1_1_temperatures_loop fs entries [] of
             Inl e \<Rightarrow> Inl e
           | Inr temperatures \<Rightarrow>
               Inr (if length temperatures = 0
                    then \<lparr>code = FAILURE, debugMessage = strerror (- ENOENT)\<rparr>
                    else \<lparr>code = SUCCESS, debugMessage = []\<rparr>,
                    temperatures)))"

text \<open>
  The conversions of \<^verbatim>\<open>sscanf\<close> and \<^verbatim>\<open>fscanf\<close>: white space is skipped, a sign may stand
  before the digits. C leaves a value that does not fit undefined; the model follows
  bionic, where \<^verbatim>\<open>%d\<close> stores the low 32 bits of the value clamped to 64 bits and
  \<^verbatim>\<open>%llu\<close> stores the largest value, and where a minus sign negates modulo \<open>2\<^sup>6\<^sup>4\<close>.
  The bound bionic puts on the length of one number (512 characters) is left out.
\<close>

definition scan_digits :: "string \<Rightarrow> (bool \<times> nat \<times> string) option" where
  "scan_digits s =
     (let s1 = dropWhile isspace s;
          (neg, s2) =
            (case s1 of
               [] \<Rightarrow> (False, s1)
             | c # r \<Rightarrow>
                 (if c = CHR ''-'' then (True, r)
                  else if c = CHR ''+'' then (False, r)
                  else (False, s1)));
          ds = takeWhile isdigit s2
      in if ds = [] then None else Some (neg, digits_val ds, dropWhile isdigit s2))"

definition conv_d :: "int \<Rightarrow> int" where
  "conv_d v =
     (let clamped = max (- (2 ^ 63)) (min (2 ^ 63 - 1) v);
          low = clamped mod 2 ^ 32
      in if low < 2 ^ 31 then low else low - 2 ^ 32)"

definition conv_llu :: "bool \<Rightarrow> nat \<Rightarrow> 64 word" where
  "conv_llu neg n =
     (if 2 ^ 64 \<le> n then - 1
      else if neg then - word_of_nat n
      else word_of_nat n)"

text \<open>
  \<^verbatim>\<open>sscanf(line, "cpu%d %llu %llu %llu %llu", ...)\<close>: the five values when all five
  conversions succeed, \<open>None\<close> when the count is not 5.
\<close>

definition sscanf_cpu :: "string \<Rightarrow> (int \<times> 64 word \<times> 64 word \<times> 64 word \<times> 64 word) option" where
  "sscanf_cpu line =
     (if take 3 line = ''cpu'' then
        (case scan_digits (drop 3 line) of
           None \<Rightarrow> None
         | Some (n0, v0, r0) \<Rightarrow>
        (case scan_digits r0 of
           None \<Rightarrow> None
         | Some (n1, v1, r1) \<Rightarrow>
        (case scan_digits r1 of
           None \<Rightarrow> None
         | Some (n2, v2, r2) \<Rightarrow>
        (case scan_digits r2 of
           None \<Rightarrow> None
         | Some (n3, v3, r3) \<Rightarrow>
        (case scan_digits r3 of
           None \<Rightarrow> None
         | Some (n4, v4, r4) \<Rightarrow>
             Some (conv_d (if n0 then - int v0 else int v0),
                   conv_llu n1 v1, conv_llu n2 v2, conv_llu n3 v3, conv_llu n4 v4))))))
      else None)"

text \<open>
  The body of the loop of the 1.1 \<^verbatim>\<open>getCpuUsages\<close>; \<^verbatim>\<open>getline\<close> hands over each line
  with its newline. A line is skipped, or ends the call with a failure, or adds a sample.
\<close>

datatype 'a line_result = Skip | Fail | Sample 'a

definition V1_1_cpu_line :: "filesystem \<Rightarrow> string \<Rightarrow> CpuUsage line_result" where
  "V1_1_cpu_line fs l =
     (let line = l @ [CHR 0x0A] in
      if length line < 4 then Skip
      else if take 3 line \<noteq> ''cpu'' then Skip
      else if \<not> isdigit (line ! 3) then Skip
      else
        (case sscanf_cpu line of
           None \<Rightarrow> Fail
         | Some (cpu_num, user, nice, system, idle) \<Rightarrow>
             (let active' = user + nice + system;
                  total' = active' + idle;
                  file_name = snprintf MAX_LENGTH
                    (''/sys/devices/system/cpu/cpu'' @ show_int cpu_num @ ''/online'');
                  cpu_name' = snprintf 5 (''CPU'' @ show_int cpu_num)
              in case files fs file_name of
                   None \<Rightarrow>
                     Sample \<lparr>cpu_name = cpu_name', active = active', total = total',
                             isOnline = (cpu_num = 0)\<rparr>
                 | Some cpu_file \<Rightarrow>
                     (case scan_int cpu_file of
                        Conv online \<Rightarrow>
                          Sample \<lparr>cpu_name = cpu_name', active = active', total = total',
                                  isOnline = (conv_d online \<noteq> 0)\<rparr>
                      | _ \<Rightarrow> Fail))))"

text \<open>The loop: the result is the status and the vector passed to the callback.\<close>

fun V1_1_cpu_loop ::
  "filesystem \<Rightarrow> string list \<Rightarrow> CpuUsage list \<Rightarrow> ThermalStatus \<times> CpuUsage list" where
  "V1_1_cpu_loop fs [] cpuUsages = (\<lparr>code = SUCCESS, debugMessage = []\<rparr>, cpuUsages)"
| "V1_1_cpu_loop fs (l # lines) cpuUsages =
     (case V1_1_cpu_line fs l of
        Skip \<Rightarrow> V1_1_cpu_loop fs lines cpuUsages
      | Fail \<Rightarrow> (\<lparr>code = FAILURE, debugMessage = strerror (- EIO)\<rparr>, cpuUsages)
      | Sample usage \<Rightarrow> V1_1_cpu_loop fs lines (cpuUsages @ [usage]))"

definition V1_1_getCpuUsages :: "filesystem \<Rightarrow> ThermalStatus \<times> CpuUsage list" where
  "V1_1_getCpuUsages fs =
     (case files fs CPU_USAGE_FILE of
        None \<Rightarrow> (\<lparr>code = SUCCESS, debugMessage = []\<rparr>, [])
      | Some file \<Rightarrow> V1_1_cpu_loop fs (text_lines file) [])"

definition V1_1_getCoolingDevices :: "ThermalStatus \<times> CoolingDevice_1_0 list" where
  "V1_1_getCoolingDevices = (\<lparr>code = SUCCESS, debugMessage = []\<rparr>, [])"

text \<open>
  The callback store of the 1.1 service is the one static pointer \<^verbatim>\<open>sThermalCb\<close>. The
  calls of \<^verbatim>\<open>notifyThrottling\<close> are kept as a log: the receiver, the flag and the sample.
\<close>

record callback_store =
  sThermalCb :: "nat option"
  notified :: "(nat \<times> bool \<times> Temperature_1_0) list"

definition registerThermalCallback :: "nat option \<Rightarrow> callback_store \<Rightarrow> callback_store" where
  "registerThermalCallback cb st =
     (case cb of
        None \<Rightarrow> st
      | Some c \<Rightarrow>
          (let st1 = st\<lparr>sThermalCb := Some c\<rparr>;
               temperature =
                 \<lparr>type_1_0 = CPU_1_0,
                  name_1_0 = ''thermal'',
                  currentValue = finalizeTemperature UNKNOWN_TEMPERATURE,
                  throttlingThreshold = finalizeTemperature (f32_of_int THROTTLING_THRESHOLD),
                  shutdownThreshold = finalizeTemperature (f32_of_int SHUTDOWN_THRESHOLD),
                  vrThrottlingThreshold = finalizeTemperature UNKNOWN_TEMPERATURE\<rparr>
           in st1\<lparr>notified := notified st1 @ [(c, False, temperature)]\<rparr>))"

subsection \<open>The threshold evaluator of the specification\<close>

text \<open>
  Modelled from the spec: the threshold evaluator, which the sources do not hold. It
  follows the words of the specification, to be compared with what the service reports:
  the hot thresholds are scanned from the most severe level to the least, the first one
  the value meets or exceeds gives the severity, a threshold that is not a number never
  triggers, and a value that is not a number gives \<open>NONE\<close>.
\<close>

fun severity_index :: "ThrottlingSeverity \<Rightarrow> nat" where
  "severity_index NONE = 0"
| "severity_index LIGHT = 1"
| "severity_index MODERATE = 2"
| "severity_index SEVERE = 3"
| "severity_index CRITICAL = 4"
| "severity_index EMERGENCY = 5"
| "severity_index SHUTDOWN = 6"

definition severities_descending :: "ThrottlingSeverity list" where
  "severities_descending = [SHUTDOWN, EMERGENCY, CRITICAL, SEVERE, MODERATE, LIGHT, NONE]"

fun spec_scan :: "f32 list \<Rightarrow> f32 \<Rightarrow> ThrottlingSeverity list \<Rightarrow> ThrottlingSeverity" where
  "spec_scan thresholds v [] = NONE"
| "spec_scan thresholds v (s # levels) =
     (if f32_ge v (thresholds ! severity_index s) then s
      else spec_scan thresholds v levels)"

definition spec_throttling_severity :: "f32 list \<Rightarrow> f32 \<Rightarrow> ThrottlingSeverity" where
  "spec_throttling_severity thresholds v =
     (if isnan v then NONE else spec_scan thresholds v severities_descending)"

subsection \<open>The raw sentinel\<close>

text \<open>
  A field holds the raw sentinel when it compares equal to \<^verbatim>\<open>UNKNOWN_TEMPERATURE\<close> or is
  its very bit pattern.
\<close>

definition raw_sentinel :: "f32 \<Rightarrow> bool" where
  "raw_sentinel x = (f32_eq x UNKNOWN_TEMPERATURE \<or> x = UNKNOWN_TEMPERATURE)"

subsection \<open>Concrete file systems\<close>

text \<open>Files that hold lines, a number, a label or a flag, and file systems made of them.\<close>

definition text_file :: "string list \<Rightarrow> fs_file" where
  "text_file ls = \<lparr>scan_float = Mismatch, scan_word = Eof, scan_int = Mismatch, text_lines = ls\<rparr>"

definition float_file :: "f32 \<Rightarrow> int \<Rightarrow> string \<Rightarrow> fs_file" where
  "float_file x i w = \<lparr>scan_float = Conv x, scan_word = Conv w, scan_int = Conv i, text_lines = [w]\<rparr>"

definition word_file :: "string \<Rightarrow> fs_file" where
  "word_file w = \<lparr>scan_float = Mismatch, scan_word = Conv w, scan_int = Mismatch, text_lines = [w]\<rparr>"

definition mk_fs :: "(string \<times> string list) list \<Rightarrow> (string \<times> fs_file) list \<Rightarrow> filesystem" where
  "mk_fs ds fl = \<lparr>directories = map_of ds, files = map_of fl\<rparr>"

text \<open>Two per-core lines behind the summary line; core 0 has no \<^verbatim>\<open>online\<close> file.\<close>

definition fs_stat :: filesystem where
  "fs_stat = mk_fs []
     [(''/proc/stat'',
       text_file [''cpu  74608 2520 24433 1117073 6176 4054 0 0 0 0'',
                  ''cpu0 10 20 30 40 5 6 7 0 0 0'',
                  ''cpu1 1 2 3 4 0 0 0 0 0 0'',
                  ''intr 1234'']),
      (''/sys/devices/system/cpu/cpu1/online'', float_file 0x3F800000 1 ''1'')]"

text \<open>A per-core line whose idle counter is the largest 64-bit number.\<close>

definition fs_stat_wrap :: filesystem where
  "fs_stat_wrap = mk_fs []
     [(''/proc/stat'', text_file [''cpu0 1 0 0 18446744073709551615''])]"


text \<open>A complete per-core line; the \<^verbatim>\<open>online\<close> file of the core is there and holds no number.\<close>

definition fs_stat_online :: filesystem where
  "fs_stat_online = mk_fs []
     [(''/proc/stat'', text_file [''cpu0 10 20 30 40'']),
      (''/sys/devices/system/cpu/cpu0/online'', text_file [])]"

text \<open>Nothing can be opened.\<close>

definition fs_nothing :: filesystem where
  "fs_nothing = mk_fs [] []"

text \<open>One thermal zone at 45000 millidegrees with the label \<^verbatim>\<open>cpu-thermal\<close>.\<close>

definition fs_zone :: filesystem where
  "fs_zone = mk_fs
     [(''/sys/class/thermal'', [''.'', ''..'', ''cooling_device0'', ''thermal_zone0''])]
     [(''/sys/class/thermal/thermal_zone0/temp'', float_file 0x472FC800 45000 ''45000''),
      (''/sys/class/thermal/thermal_zone0/type'', word_file ''cpu-thermal'')]"

text \<open>The directory of the zones without a zone in it.\<close>

definition fs_no_zone :: filesystem where
  "fs_no_zone = mk_fs [(''/sys/class/thermal'', [''.'', ''..'', ''cooling_device0''])] []"

text \<open>A zone whose \<^verbatim>\<open>temp\<close> file can be read and whose \<^verbatim>\<open>type\<close> file is missing.\<close>

definition fs_zone_no_type :: filesystem where
  "fs_zone_no_type = mk_fs
     [(''/sys/class/thermal'', [''thermal_zone0''])]
     [(''/sys/class/thermal/thermal_zone0/temp'', float_file 0x472FC800 45000 ''45000'')]"

section \<open>Properties of the floating-point model\<close>

lemma bit_length_less: "n < 2 ^ bit_length n"
proof (induction n rule: bit_length.induct)
  case (1 n)
  show ?case
  proof (cases "n = 0")
    case True
    then show ?thesis by (simp add: bit_length.simps)
  next
    case False
    then have "n div 2 < 2 ^ bit_length (n div 2)" using 1 by simp
    then have "n < 2 * 2 ^ bit_length (n div 2)" by linarith
    then show ?thesis using False by (subst bit_length.simps) simp
  qed
qed

lemma bit_length_le: "n < 2 ^ m \<Longrightarrow> bit_length n \<le> m"
proof (induction n arbitrary: m rule: bit_length.induct)
  case (1 n)
  show ?case
  proof (cases "n = 0")
    case True
    then show ?thesis by (simp add: bit_length.simps)
  next
    case False
    with 1(2) obtain m' where m: "m = Suc m'" by (cases m) auto
    with 1(2) have "n div 2 < 2 ^ m'" by auto
    with 1(1) False have "bit_length (n div 2) \<le> m'" by simp
    then show ?thesis using False m by (subst bit_length.simps) simp
  qed
qed

lemma unat_f32_pack:
  "unat (f32_pack s enc) = (if s then 2 ^ 31 else 0) + min enc (255 * 2 ^ 23)"
proof -
  have "(if s then 2 ^ 31 else 0) + min enc (255 * 2 ^ 23) < (2 :: nat) ^ LENGTH(32)"
    by (simp add: min_def)
  from of_nat_inverse [OF refl this] show ?thesis
    unfolding f32_pack_def .
qed

lemma f32_round_enc: "f32_round s num den = f32_pack s (round_enc num den)"
  by (simp add: f32_round_def)

lemma round_enc_le:
  assumes "num div den < 2 ^ m" and "24 \<le> m"
  shows "round_enc num den \<le> (m - 24) * 2 ^ 23 + 2 ^ 24"
proof -
  define k where "k = bit_length (num div den)"
  define shift where "shift = k - 24"
  define q where "q = num div (den * 2 ^ shift)"
  have k: "k \<le> m" unfolding k_def using assms(1) by (rule bit_length_le)
  then have shift: "shift \<le> m - 24" unfolding shift_def by simp
  have "num div den < 2 ^ k" unfolding k_def by (rule bit_length_less)
  also have "(2::nat) ^ k \<le> 2 ^ (shift + 24)"
    unfolding shift_def by (rule power_increasing) simp_all
  finally have "num div den < 2 ^ shift * 2 ^ 24" by (simp add: power_add)
  then have "(num div den) div 2 ^ shift < 2 ^ 24"
    by (simp add: less_mult_imp_div_less mult.commute)
  then have q: "q < 2 ^ 24" unfolding q_def by (simp add: div_mult2_eq)
  have "round_enc num den \<le> shift * 2 ^ 23 + (q + 1)"
    unfolding round_enc_def Let_def k_def [symmetric] shift_def [symmetric] q_def [symmetric]
    by simp
  also have "\<dots> \<le> (m - 24) * 2 ^ 23 + 2 ^ 24"
    using shift q by (simp add: add_mono)
  finally show ?thesis .
qed


lemma f32_exponent_less: "f32_exponent x < 256"
  unfolding f32_exponent_def by simp

lemma f32_fraction_less: "f32_fraction x < 2 ^ 23"
  unfolding f32_fraction_def by simp

lemma finite_magnitude_less:
  assumes "\<not> isnan x" and "\<not> isinf x"
  shows "f32_magnitude x < 2 ^ 277"
proof -
  have e: "f32_exponent x \<le> 254"
    using assms f32_exponent_less [of x] unfolding isnan_def isinf_def by auto
  have f: "2 ^ 23 + f32_fraction x < 2 ^ 24"
    using f32_fraction_less [of x] by simp
  show ?thesis
  proof (cases "f32_exponent x = 0")
    case True
    have "f32_fraction x < 2 ^ 23" by (rule f32_fraction_less)
    also have "(2::nat) ^ 23 \<le> 2 ^ 277" by (rule power_increasing) simp_all
    finally show ?thesis using True by (simp add: f32_magnitude_def)
  next
    case False
    have "(2::nat) ^ (f32_exponent x - 1) \<le> 2 ^ 253"
      using e by (intro power_increasing) simp_all
    then have "(2 ^ 23 + f32_fraction x) * 2 ^ (f32_exponent x - 1) < 2 ^ 24 * 2 ^ 253"
      using f by (intro mult_less_le_imp_less) simp_all
    also have "(2::nat) ^ 24 * 2 ^ 253 = 2 ^ 277" by (simp flip: power_add)
    finally show ?thesis using False by (simp add: f32_magnitude_def)
  qed
qed

lemmas bit_length_eval =
  bit_length.simps [of 0] bit_length.simps [of 1] bit_length.simps [of "Suc 0"]
  bit_length.simps [of "numeral k" for k]

lemmas f32_eval =
  f32_of_int_def f32_round_def round_enc_def f32_pack_def Let_def bit_length_eval
  f32_sign_def f32_exponent_def f32_fraction_def f32_magnitude_def f32_scaled_def
  isnan_def isinf_def f32_eq_def f32_ge_def f32_div_def NAN_def

lemma k1000_bits: "f32_of_int 1000 = 0x447A0000"
  by (simp add: f32_eval)

lemma k1000_magnitude: "f32_magnitude 0x447A0000 = 1000 * 2 ^ 149"
  by (simp add: f32_magnitude_def f32_exponent_def f32_fraction_def)

lemma k1000_class: "\<not> isnan 0x447A0000" "\<not> isinf 0x447A0000"
  by (simp_all add: isnan_def isinf_def f32_exponent_def f32_fraction_def)

lemma unknown_bits: "UNKNOWN_TEMPERATURE = 0xFF7FFFFF"
  by (simp add: UNKNOWN_TEMPERATURE_def f32_neg_def FLT_MAX_def)

lemma div_1000_not_unknown: "f32_div x (f32_of_int 1000) \<noteq> UNKNOWN_TEMPERATURE"
proof -
  let ?s = "f32_sign x \<noteq> f32_sign 0x447A0000"
  consider (nan) "isnan x" | (inf) "\<not> isnan x" "isinf x" | (fin) "\<not> isnan x" "\<not> isinf x"
    by blast
  then have "unat (f32_div x 0x447A0000) \<noteq> unat (0xFF7FFFFF :: f32)"
  proof cases
    case nan
    then show ?thesis by (simp add: f32_div_def NAN_def)
  next
    case inf
    then show ?thesis
      by (simp add: f32_div_def k1000_class unat_f32_pack Let_def)
  next
    case fin
    have "f32_magnitude x * 2 ^ 149 div (1000 * 2 ^ 149) = f32_magnitude x div 1000"
      by simp
    also have "\<dots> \<le> f32_magnitude x div 512" by (rule div_le_mono2) simp_all
    also have "\<dots> < 2 ^ 268"
    proof -
      have "f32_magnitude x < 2 ^ 277" using fin by (rule finite_magnitude_less)
      also have "(2::nat) ^ 277 = 2 ^ 268 * 512" by simp
      finally show ?thesis by (rule less_mult_imp_div_less)
    qed
    finally have "round_enc (f32_magnitude x * 2 ^ 149) (1000 * 2 ^ 149)
        \<le> (268 - 24) * 2 ^ 23 + 2 ^ 24"
      by (rule round_enc_le) simp
    then have "round_enc (f32_magnitude x * 2 ^ 149) (1000 * 2 ^ 149) < 255 * 2 ^ 23 - 1"
      by simp
    then show ?thesis
      using fin
      by (simp add: f32_div_def k1000_class k1000_magnitude f32_round_enc unat_f32_pack
          Let_def min_def)
  qed
  then show ?thesis unfolding k1000_bits unknown_bits by auto
qed


lemma f32_magnitude_less: "f32_magnitude w < 2 ^ (f32_exponent w + 23)"
proof (cases "f32_exponent w = 0")
  case True
  then show ?thesis using f32_fraction_less [of w] by (simp add: f32_magnitude_def)
next
  case False
  have "(2 ^ 23 + f32_fraction w) * 2 ^ (f32_exponent w - 1) < 2 ^ 24 * 2 ^ (f32_exponent w - 1)"
    using f32_fraction_less [of w] by simp
  also have "\<dots> = 2 ^ (24 + (f32_exponent w - 1))" by (simp only: power_add)
  also have "24 + (f32_exponent w - 1) = f32_exponent w + 23" using False by simp
  finally show ?thesis using False by (simp add: f32_magnitude_def)
qed

lemma f32_exponent_pack:
  assumes "enc < 255 * 2 ^ 23"
  shows "f32_exponent (f32_pack s enc) = enc div 2 ^ 23"
proof -
  have e: "enc div 2 ^ 23 < 256" using assms by (simp add: less_mult_imp_div_less)
  have "(256 * 8388608 + enc) div 8388608 = 256 + enc div 8388608"
    by (subst div_mult_self3) simp_all
  then have "((if s then 2 ^ 31 else 0) + enc) div 2 ^ 23 = (if s then 256 else 0) + enc div 2 ^ 23"
    by simp
  then show ?thesis
    using assms e by (simp add: f32_exponent_def unat_f32_pack min_def)
qed

lemma unknown_scaled: "f32_scaled UNKNOWN_TEMPERATURE = - ((2 ^ 24 - 1) * 2 ^ 253)"
  by (simp add: unknown_bits f32_eval)

lemma unknown_not_nan: "\<not> isnan UNKNOWN_TEMPERATURE"
  by (simp add: unknown_bits f32_eval)

lemma div_1000_not_eq_unknown: "\<not> f32_eq (f32_div x (f32_of_int 1000)) UNKNOWN_TEMPERATURE"
proof -
  consider (nan) "isnan x" | (inf) "\<not> isnan x" "isinf x" | (fin) "\<not> isnan x" "\<not> isinf x"
    by blast
  then have "\<not> f32_eq (f32_div x 0x447A0000) UNKNOWN_TEMPERATURE"
  proof cases
    case nan
    then show ?thesis by (simp add: f32_div_def f32_eq_def NAN_def isnan_def f32_exponent_def f32_fraction_def)
  next
    case inf
    have "f32_pack True (255 * 2 ^ 23) = 0xFF800000" "f32_pack False (255 * 2 ^ 23) = 0x7F800000"
      by (simp_all add: f32_pack_def)
    then have "\<not> f32_eq (f32_pack s (255 * 2 ^ 23)) UNKNOWN_TEMPERATURE" for s
      by (cases s) (simp_all add: unknown_bits f32_eval)
    then show ?thesis using inf
      by (simp add: f32_div_def k1000_class Let_def)
  next
    case fin
    define enc where "enc = round_enc (f32_magnitude x * 2 ^ 149) (1000 * 2 ^ 149)"
    define w where "w = f32_pack (f32_sign x \<noteq> f32_sign 0x447A0000) enc"
    have "f32_magnitude x * 2 ^ 149 div (1000 * 2 ^ 149) = f32_magnitude x div 1000"
      by simp
    also have "\<dots> \<le> f32_magnitude x div 512" by (rule div_le_mono2) simp_all
    also have "\<dots> < 2 ^ 268"
    proof -
      have "f32_magnitude x < 2 ^ 277" using fin by (rule finite_magnitude_less)
      also have "(2::nat) ^ 277 = 2 ^ 268 * 512" by simp
      finally show ?thesis by (rule less_mult_imp_div_less)
    qed
    finally have "enc \<le> (268 - 24) * 2 ^ 23 + 2 ^ 24"
      unfolding enc_def by (rule round_enc_le) simp
    then have enc: "enc \<le> 246 * 2 ^ 23" by simp
    then have "f32_exponent w = enc div 2 ^ 23"
      unfolding w_def by (intro f32_exponent_pack) simp
    also have "\<dots> \<le> 246" using enc by simp
    finally have "f32_exponent w + 23 \<le> 269" by simp
    then have "(2::nat) ^ (f32_exponent w + 23) \<le> 2 ^ 269"
      by (intro power_increasing) simp_all
    with f32_magnitude_less [of w] have "f32_magnitude w < 2 ^ 269" by simp
    also have "(2::nat) ^ 269 < (2 ^ 24 - 1) * 2 ^ 253" by simp
    finally have "int (f32_magnitude w) < int ((2 ^ 24 - 1) * 2 ^ 253)"
      by (simp only: of_nat_less_iff)
    also have "int ((2 ^ 24 - 1) * 2 ^ 253) = (2 ^ 24 - 1) * 2 ^ 253" by simp
    finally have "f32_scaled w \<noteq> - ((2 ^ 24 - 1) * 2 ^ 253)"
      by (cases "f32_sign w") (simp_all add: f32_scaled_def)
    then have "f32_scaled w \<noteq> f32_scaled UNKNOWN_TEMPERATURE"
      unfolding unknown_scaled .
    then have "\<not> f32_eq w UNKNOWN_TEMPERATURE" by (simp add: f32_eq_def)
    moreover have "f32_div x 0x447A0000 = w"
      using fin unfolding w_def enc_def
      by (simp add: f32_div_def k1000_class k1000_magnitude f32_round_enc Let_def)
    ultimately show ?thesis by simp
  qed
  then show ?thesis unfolding k1000_bits .
qed

lemma k100_bits: "f32_of_int 100 = 0x42C80000"
  by (simp add: f32_eval)

lemma k120_bits: "f32_of_int 120 = 0x42F00000"
  by (simp add: f32_eval)

lemma finalize_unknown: "finalizeTemperature UNKNOWN_TEMPERATURE = NAN"
  by (simp add: finalizeTemperature_def f32_eq_def unknown_not_nan)

lemma finalize_throttling: "finalizeTemperature (f32_of_int 100) = f32_of_int 100"
  unfolding k100_bits by (simp add: finalizeTemperature_def unknown_bits f32_eval)

lemma finalize_shutdown: "finalizeTemperature (f32_of_int 120) = f32_of_int 120"
  unfolding k120_bits by (simp add: finalizeTemperature_def unknown_bits f32_eval)

lemma finalize_not_eq_unknown: "\<not> f32_eq (finalizeTemperature x) UNKNOWN_TEMPERATURE"
  by (simp add: finalizeTemperature_def) (simp add: f32_eq_def NAN_def isnan_def f32_exponent_def f32_fraction_def)

lemma finalize_not_unknown: "finalizeTemperature x \<noteq> UNKNOWN_TEMPERATURE"
  using finalize_not_eq_unknown [of x] unknown_not_nan
  by (auto simp: finalizeTemperature_def f32_eq_def split: if_splits)

section \<open>Evaluation at concrete inputs\<close>

lemmas show_nat_eval =
  show_nat.simps [of 0] show_nat.simps [of 1] show_nat.simps [of "Suc 0"]
  show_nat.simps [of "numeral k" for k]

lemmas str_eval =
  isdigit_def isspace_def digit_val_def digits_val_def digits1_def space_digits_def
  regex_match_here_def stoi_def stoull_def INT_MAX_def INT_MIN_def scan_digits_def conv_d_def
  conv_llu_def sscanf_cpu_def digit_char_def show_int_def show_nat_eval strerror_def
  sys_errlist_def ENOENT_def EIO_def snprintf_def MAX_LENGTH_def TEMP_NAME_LENGTH_def

lemmas fs_eval =
  mk_fs_def text_file_def float_file_def word_file_def
  ifstream_default_def ifstream_open_def ifstream_path_def ifstream_close_def
  extract_float_def extract_int_def extract_string_def path_append_def
  kCpuUsageFile_def kTemperaturePath_def kThermalZone_def CPU_USAGE_FILE_def
  TEMPERATURE_DIR_def THERMAL_DIR_def

lemmas model_eval =
  V2_0_getCpuUsages_def V1_1_getCpuUsages_def V2_0_cpu_line_def V2_0_counters_def
  V1_1_cpu_line_def V2_0_getTemperatures_def V1_1_getTemperatures_def
  getTemperaturesHelper_def getCurrentTemperatures_def getTemperatureThresholds_def
  str_eval fs_eval Let_def

lemma strerror_ENOENT: "strerror (- ENOENT) = ''Unknown error -2''"
  by (simp add: str_eval)


section \<open>Properties of the temperature queries\<close>

lemma double_open_fails: "failbit (ifstream_open fs path (ifstream_path fs path))"
  by (cases "files fs path") (simp_all add: ifstream_open_def ifstream_path_def)

lemma helper_loop_unchanged: "helper_loop fs entries temp temperatures = temperatures"
  by (induction entries arbitrary: temp temperatures) (simp_all add: double_open_fails Let_def)

lemma getTemperaturesHelper_empty:
  "getTemperaturesHelper fs =
     (case directories fs kTemperaturePath of None \<Rightarrow> Inl filesystem_error | Some entries \<Rightarrow> Inr [])"
  by (simp add: getTemperaturesHelper_def helper_loop_unchanged split: option.splits)

lemma V2_0_getTemperatures_fails:
  "V2_0_getTemperatures fs =
     (case directories fs kTemperaturePath of
        None \<Rightarrow> Inl filesystem_error
      | Some entries \<Rightarrow> Inr (\<lparr>code = FAILURE, debugMessage = ''Unknown error -2''\<rparr>, []))"
  by (simp add: V2_0_getTemperatures_def getTemperaturesHelper_empty strerror_ENOENT
      split: option.splits)

lemma getCurrentTemperatures_fails:
  "getCurrentTemperatures fs filterType type' =
     (case directories fs kTemperaturePath of
        None \<Rightarrow> Inl filesystem_error
      | Some entries \<Rightarrow> Inr (\<lparr>code = FAILURE, debugMessage = ''Unknown error -2''\<rparr>, []))"
  by (simp add: getCurrentTemperatures_def getTemperaturesHelper_empty strerror_ENOENT
      split: option.splits)

text \<open>
  The loop of \<^verbatim>\<open>getCurrentTemperatures\<close> gives every sample it builds the severity \<open>NONE\<close>;
  the query itself gets no sample from the helper. The scan of the hot thresholds gives
  \<open>SHUTDOWN\<close> from 120 and the fourth level from 100.
\<close>

lemma current_loop_NONE: "t \<in> set (current_loop filterType type' temps) \<Longrightarrow> throttlingStatus t = NONE"
  by (induction temps) (auto simp: Let_def split: if_splits)

lemma isnan_NAN: "isnan NAN"
  by (simp add: NAN_def isnan_def f32_exponent_def f32_fraction_def)

lemma f32_ge_NAN: "\<not> f32_ge v NAN"
  by (simp add: f32_ge_def isnan_NAN)

lemma spec_severity_hot:
  "spec_throttling_severity hot_thresholds v =
     (if f32_ge v kShutdownThreshold then SHUTDOWN
      else if f32_ge v kThrottlingThreshold then SEVERE
      else NONE)"
  by (simp add: spec_throttling_severity_def severities_descending_def hot_thresholds_def f32_ge_NAN)
     (simp add: f32_ge_def)

lemma V1_1_temperatures_members:
  "V1_1_temperatures_loop fs entries acc = Inr ts \<Longrightarrow> t \<in> set ts \<Longrightarrow>
     t \<in> set acc \<or> (\<exists>name temp. t = V1_1_temperature name temp)"
proof (induction entries arbitrary: acc)
  case Nil
  then show ?case by simp
next
  case (Cons d entries)
  from Cons.prems show ?case
    by (auto simp: split: if_splits option.splits scanned.splits dest!: Cons.IH)
qed

section \<open>Properties of the usage queries\<close>

lemma V2_0_cpu_line_counters:
  "V2_0_cpu_line fs on l = Some (Inr (u, on')) \<Longrightarrow>
     \<exists>sm1 cpuNum user nice system idle.
       V2_0_counters l = Some (Inr (sm1, cpuNum, user, nice, system, idle))
       \<and> active u = user + nice + system \<and> total u = active u + idle"
  by (auto simp: V2_0_cpu_line_def Let_def split: option.splits sum.splits prod.splits)



lemma V2_0_loop_members:
  "V2_0_cpu_loop fs ls on acc = Inr us \<Longrightarrow> u \<in> set us \<Longrightarrow>
     u \<in> set acc \<or> (\<exists>l\<in>set ls. \<exists>on0 on1. V2_0_cpu_line fs on0 l = Some (Inr (u, on1)))"
proof (induction ls arbitrary: on acc)
  case Nil
  then show ?case by simp
next
  case (Cons l ls)
  show ?case
  proof (cases "V2_0_cpu_line fs on l")
    case None
    with Cons.prems have "V2_0_cpu_loop fs ls on acc = Inr us" by simp
    from Cons.IH [OF this Cons.prems(2)] show ?thesis by auto
  next
    case (Some r)
    show ?thesis
    proof (cases r)
      case (Inl e)
      with Some Cons.prems show ?thesis by simp
    next
      case (Inr p)
      obtain usage on2 where p: "p = (usage, on2)" by (cases p)
      with Some Inr Cons.prems have "V2_0_cpu_loop fs ls on2 (acc @ [usage]) = Inr us" by simp
      from Cons.IH [OF this Cons.prems(2)] Some Inr p show ?thesis by auto
    qed
  qed
qed




lemma V1_1_cpu_line_counters:
  "V1_1_cpu_line fs l = Sample u \<Longrightarrow>
     \<exists>cpu_num user nice system idle.
       sscanf_cpu (l @ [CHR 0x0A]) = Some (cpu_num, user, nice, system, idle)
       \<and> active u = user + nice + system \<and> total u = active u + idle"
  by (auto simp: V1_1_cpu_line_def Let_def split: option.splits scanned.splits if_splits)

lemma V1_1_loop_members:
  "u \<in> set (snd (V1_1_cpu_loop fs ls acc)) \<Longrightarrow>
     u \<in> set acc \<or> (\<exists>l\<in>set ls. V1_1_cpu_line fs l = Sample u)"
proof (induction ls arbitrary: acc)
  case Nil
  then show ?case by simp
next
  case (Cons l ls)
  show ?case
  proof (cases "V1_1_cpu_line fs l")
    case Skip
    with Cons.prems have "u \<in> set (snd (V1_1_cpu_loop fs ls acc))" by simp
    from Cons.IH [OF this] show ?thesis by auto
  next
    case Fail
    with Cons.prems show ?thesis by simp
  next
    case (Sample usage)
    with Cons.prems have "u \<in> set (snd (V1_1_cpu_loop fs ls (acc @ [usage])))" by simp
    from Cons.IH [OF this] Sample show ?thesis by auto
  qed
qed





lemma wrap_iff: "(a \<le> a + b) = (unat a + unat b < 2 ^ 64)" for a b :: "64 word"
  using no_olen_add_nat [of a b] by simp

section \<open>The queries at the concrete file systems\<close>

lemma eval_V2_stat:
  "V2_0_getCpuUsages fs_stat =
     Inr (\<lparr>code = SUCCESS, debugMessage = []\<rparr>,
          [\<lparr>cpu_name = ''CPU0'', active = 60, total = 100, isOnline = True\<rparr>,
           \<lparr>cpu_name = ''CPU1'', active = 6, total = 10, isOnline = True\<rparr>])"
  by (simp add: fs_stat_def model_eval)

lemma eval_V1_stat:
  "V1_1_getCpuUsages fs_stat =
     (\<lparr>code = SUCCESS, debugMessage = []\<rparr>,
      [\<lparr>cpu_name = ''CPU0'', active = 60, total = 100, isOnline = True\<rparr>,
       \<lparr>cpu_name = ''CPU1'', active = 6, total = 10, isOnline = True\<rparr>])"
  by (simp add: fs_stat_def model_eval)

lemma eval_V2_wrap:
  "V2_0_getCpuUsages fs_stat_wrap =
     Inr (\<lparr>code = SUCCESS, debugMessage = []\<rparr>,
          [\<lparr>cpu_name = ''CPU0'', active = 1, total = 0, isOnline = True\<rparr>])"
  by (simp add: fs_stat_wrap_def model_eval)

lemma eval_V1_wrap:
  "V1_1_getCpuUsages fs_stat_wrap =
     (\<lparr>code = SUCCESS, debugMessage = []\<rparr>,
      [\<lparr>cpu_name = ''CPU0'', active = 1, total = 0, isOnline = True\<rparr>])"
  by (simp add: fs_stat_wrap_def model_eval)



lemma eval_V2_online:
  "V2_0_getCpuUsages fs_stat_online =
     Inr (\<lparr>code = SUCCESS, debugMessage = []\<rparr>,
          [\<lparr>cpu_name = ''CPU0'', active = 60, total = 100, isOnline = False\<rparr>])"
  by (simp add: fs_stat_online_def model_eval)


lemma eval_V2_nothing:
  "V2_0_getCpuUsages fs_nothing = Inr (\<lparr>code = FAILURE, debugMessage = []\<rparr>, [])"
  by (simp add: fs_nothing_def model_eval)

lemma eval_V1_nothing:
  "V1_1_getCpuUsages fs_nothing = (\<lparr>code = SUCCESS, debugMessage = []\<rparr>, [])"
  by (simp add: fs_nothing_def model_eval)

lemma div_45000: "f32_div 0x472FC800 (f32_of_int 1000) = 0x42340000"
  unfolding k1000_bits by (simp add: f32_eval)

lemma div_100000: "f32_div (f32_of_int 100000) (f32_of_int 1000) = 0x42C80000"
  by (simp add: f32_eval)

lemma eval_V1_zone:
  "V1_1_getTemperatures fs_zone =
     Inr (\<lparr>code = SUCCESS, debugMessage = []\<rparr>,
          [\<lparr>type_1_0 = CPU_1_0, name_1_0 = ''cpu-thermal'', currentValue = 0x42340000,
            throttlingThreshold = f32_of_int 100, shutdownThreshold = f32_of_int 120,
            vrThrottlingThreshold = NAN\<rparr>])"
  by (simp add: fs_zone_def model_eval V1_1_temperature_def div_45000 finalize_unknown
      finalize_throttling finalize_shutdown THROTTLING_THRESHOLD_def SHUTDOWN_THRESHOLD_def)

lemma eval_V2_zone:
  "V2_0_getTemperatures fs_zone =
     Inr (\<lparr>code = FAILURE, debugMessage = ''Unknown error -2''\<rparr>, [])"
  by (simp add: fs_zone_def model_eval)

lemma eval_V1_no_zone:
  "V1_1_getTemperatures fs_no_zone =
     Inr (\<lparr>code = FAILURE, debugMessage = ''Unknown error -2''\<rparr>, [])"
  by (simp add: fs_no_zone_def model_eval)

lemma eval_V2_no_zone:
  "V2_0_getTemperatures fs_no_zone =
     Inr (\<lparr>code = FAILURE, debugMessage = ''Unknown error -2''\<rparr>, [])"
  by (simp add: fs_no_zone_def model_eval)

lemma eval_V1_no_type: "V1_1_getTemperatures fs_zone_no_type = Inl null_stream"
  by (simp add: fs_zone_no_type_def model_eval)

lemma strerror_positive: "strerror ENOENT = ''No such file or directory''"
  by (simp add: str_eval)

lemma ge_examples:
  "\<not> f32_ge 0x42C7CCCD kThrottlingThreshold" "\<not> f32_ge 0x42C7CCCD kShutdownThreshold"
  "f32_ge 0x42C80000 kThrottlingThreshold" "\<not> f32_ge 0x42C80000 kShutdownThreshold"
  "f32_ge 0x42F00000 kShutdownThreshold"
  by (simp_all add: kThrottlingThreshold_def kShutdownThreshold_def k100_bits k120_bits)
     (simp_all add: f32_eval)

section \<open>Further properties used by the claims\<close>








lemma raw_sentinel_finalize: "\<not> raw_sentinel (finalizeTemperature x)"
  by (simp add: raw_sentinel_def finalize_not_eq_unknown finalize_not_unknown)

lemma raw_sentinel_div: "\<not> raw_sentinel (f32_div x (f32_of_int 1000))"
  by (simp add: raw_sentinel_def div_1000_not_eq_unknown div_1000_not_unknown)

lemma raw_sentinel_NAN: "\<not> raw_sentinel NAN"
  using raw_sentinel_finalize [of UNKNOWN_TEMPERATURE] by (simp add: finalize_unknown)

lemma raw_sentinel_unknown: "raw_sentinel UNKNOWN_TEMPERATURE"
  by (simp add: raw_sentinel_def)

section \<open>Properties of the callback stores\<close>

lemma list_ex_callback: "list_ex (\<lambda>s. interfacesEqual (callback s) c) cbs \<longleftrightarrow> c \<in> callback ` set cbs"
  by (auto simp: list_ex_iff interfacesEqual_def)

lemma register_present:
  "c \<in> callback ` set cbs \<Longrightarrow>
   registerThermalChangedCallback (Some c) filterType type' cbs =
     (\<lparr>code = FAILURE, debugMessage = ''Same callback interface registered already''\<rparr>, cbs)"
  by (simp add: registerThermalChangedCallback_def list_ex_callback)

lemma register_absent:
  "c \<notin> callback ` set cbs \<Longrightarrow>
   registerThermalChangedCallback (Some c) filterType type' cbs =
     (\<lparr>code = SUCCESS, debugMessage = []\<rparr>,
      cbs @ [\<lparr>callback = c, is_filter_type = filterType, setting_type = type'\<rparr>])"
  by (simp add: registerThermalChangedCallback_def list_ex_callback)

lemma filter_absent:
  "c \<notin> callback ` set cbs \<Longrightarrow> filter (\<lambda>s. \<not> interfacesEqual (callback s) c) cbs = cbs"
  by (induction cbs) (auto simp: interfacesEqual_def)

lemma unregister_absent:
  "c \<notin> callback ` set cbs \<Longrightarrow>
   unregisterThermalChangedCallback (Some c) cbs =
     (\<lparr>code = FAILURE, debugMessage = ''The callback was not registered before''\<rparr>, cbs)"
  by (simp add: unregisterThermalChangedCallback_def list_ex_callback filter_absent Let_def)

lemma count_distinct:
  "distinct (map callback cbs) \<Longrightarrow> c \<in> callback ` set cbs \<Longrightarrow>
   length (filter (\<lambda>s. callback s = c) cbs) = 1"
proof (induction cbs)
  case Nil
  then show ?case by simp
next
  case (Cons s cbs)
  show ?case
  proof (cases "callback s = c")
    case True
    with Cons.prems have "c \<notin> callback ` set cbs" by auto
    then have "filter (\<lambda>s. callback s = c) cbs = []" by (auto simp: filter_empty_conv)
    with True show ?thesis by simp
  next
    case False
    with Cons show ?thesis by auto
  qed
qed

lemma register_distinct:
  "distinct (map callback cbs) \<Longrightarrow>
   distinct (map callback (snd (registerThermalChangedCallback cb filterType type' cbs)))"
  by (cases cb) (auto simp: registerThermalChangedCallback_def list_ex_callback)

lemma unregister_distinct:
  "distinct (map callback cbs) \<Longrightarrow>
   distinct (map callback (snd (unregisterThermalChangedCallback cb cbs)))"
  by (cases cb) (auto simp: unregisterThermalChangedCallback_def Let_def distinct_map_filter)

lemma register_None: "registerThermalCallback None st = st"
  by (simp add: registerThermalCallback_def)

lemma fold_register:
  "sThermalCb (foldl (\<lambda>s cb. registerThermalCallback cb s) st cbs) =
     last (sThermalCb st # filter (\<lambda>cb. cb \<noteq> None) cbs)"
proof (induction cbs arbitrary: st)
  case Nil
  then show ?case by simp
next
  case (Cons cb cbs)
  show ?case
  proof (cases cb)
    case None
    then show ?thesis using Cons [of st] by (simp add: register_None)
  next
    case (Some c)
    then show ?thesis using Cons [of "registerThermalCallback (Some c) st"]
      by (simp add: registerThermalCallback_def Let_def)
  qed
qed

section \<open>The claims\<close>

subsection \<open>Cooling devices\<close>

text \<open>
  Claim C4, as stated: every call of \<^verbatim>\<open>getCoolingDevices\<close> returns the status FAILURE with
  the message \<^verbatim>\<open>No cooling devices\<close> and an empty sequence, never SUCCESS. The 1.1
  service, one of the two places the claim names, returns SUCCESS with an empty message.
\<close>

theorem cooling_devices_V1_1_success:
  "code (fst V1_1_getCoolingDevices) = SUCCESS
   \<and> debugMessage (fst V1_1_getCoolingDevices) \<noteq> ''No cooling devices''"
  by (simp add: V1_1_getCoolingDevices_def)

text \<open>
  Claim C4, amended: in the 2.0 service \<^verbatim>\<open>getCoolingDevices\<close> and
  \<^verbatim>\<open>getCurrentCoolingDevices\<close> always return FAILURE with the message
  \<^verbatim>\<open>No cooling devices\<close> and an empty sequence; in the 1.1 service \<^verbatim>\<open>getCoolingDevices\<close>
  always returns SUCCESS with an empty message and an empty sequence.
\<close>

theorem cooling_devices_by_interface:
  "V2_0_getCoolingDevices =
     (\<lparr>code = FAILURE, debugMessage = ''No cooling devices''\<rparr>, [])
   \<and> getCurrentCoolingDevices filterType type' =
     (\<lparr>code = FAILURE, debugMessage = ''No cooling devices''\<rparr>, [])
   \<and> V1_1_getCoolingDevices = (\<lparr>code = SUCCESS, debugMessage = []\<rparr>, [])"
  by (simp add: V2_0_getCoolingDevices_def getCurrentCoolingDevices_def V1_1_getCoolingDevices_def)

subsection \<open>The registry of the 2.0 service\<close>

text \<open>
  Claim C8: in a registry that holds each listener at most once, which the empty registry
  does and which every registration and every removal preserves, registering a
  listener that is present, whatever the filter settings, fails with the message of the
  duplicate, leaves the registry as it was and so leaves exactly one setting for the
  listener; removing a listener that is absent fails with the message of the unknown
  listener and leaves the registry as it was. Registering the same listener twice in a
  row therefore fails the second time and leaves one setting.
\<close>

theorem registry_conflicts_leave_state:
  assumes "distinct (map callback cbs)"
  shows "(c \<in> callback ` set cbs \<longrightarrow>
            registerThermalChangedCallback (Some c) filterType type' cbs =
              (\<lparr>code = FAILURE, debugMessage = ''Same callback interface registered already''\<rparr>, cbs)
            \<and> length (filter (\<lambda>s. callback s = c) cbs) = 1)
       \<and> (c \<notin> callback ` set cbs \<longrightarrow>
            unregisterThermalChangedCallback (Some c) cbs =
              (\<lparr>code = FAILURE, debugMessage = ''The callback was not registered before''\<rparr>, cbs))
       \<and> (let after1 = snd (registerThermalChangedCallback (Some c) filterType type' cbs);
               second = registerThermalChangedCallback (Some c) filterType2 type2 after1
           in code (fst second) = FAILURE \<and> snd second = after1
              \<and> length (filter (\<lambda>s. callback s = c) (snd second)) = 1)
       \<and> distinct (map callback (snd (registerThermalChangedCallback cb filterType type' cbs)))
       \<and> distinct (map callback (snd (unregisterThermalChangedCallback cb cbs)))"
proof (intro conjI impI)
  show "distinct (map callback (snd (registerThermalChangedCallback cb filterType type' cbs)))"
    using assms by (rule register_distinct)
next
  show "distinct (map callback (snd (unregisterThermalChangedCallback cb cbs)))"
    using assms by (rule unregister_distinct)
next
  assume "c \<in> callback ` set cbs"
  then show "registerThermalChangedCallback (Some c) filterType type' cbs =
      (\<lparr>code = FAILURE, debugMessage = ''Same callback interface registered already''\<rparr>, cbs)"
    by (rule register_present)
next
  assume "c \<in> callback ` set cbs"
  with assms show "length (filter (\<lambda>s. callback s = c) cbs) = 1" by (rule count_distinct)
next
  assume "c \<notin> callback ` set cbs"
  then show "unregisterThermalChangedCallback (Some c) cbs =
      (\<lparr>code = FAILURE, debugMessage = ''The callback was not registered before''\<rparr>, cbs)"
    by (rule unregister_absent)
next
  define after1 where "after1 = snd (registerThermalChangedCallback (Some c) filterType type' cbs)"
  have d: "distinct (map callback after1)"
    unfolding after1_def using assms by (rule register_distinct)
  have m: "c \<in> callback ` set after1"
    unfolding after1_def
    by (cases "c \<in> callback ` set cbs") (simp_all add: register_present register_absent)
  show "let after1 = snd (registerThermalChangedCallback (Some c) filterType type' cbs);
            second = registerThermalChangedCallback (Some c) filterType2 type2 after1
        in code (fst second) = FAILURE \<and> snd second = after1
           \<and> length (filter (\<lambda>s. callback s = c) (snd second)) = 1"
    unfolding Let_def after1_def [symmetric]
    using m d by (simp add: register_present count_distinct)
qed

theorem registry_conflicts_witness:
  "distinct (map callback [\<lparr>callback = 7, is_filter_type = True, setting_type = CPU\<rparr>])
   \<and> registerThermalChangedCallback (Some 7) False GPU
        [\<lparr>callback = 7, is_filter_type = True, setting_type = CPU\<rparr>] =
       (\<lparr>code = FAILURE, debugMessage = ''Same callback interface registered already''\<rparr>,
        [\<lparr>callback = 7, is_filter_type = True, setting_type = CPU\<rparr>])
   \<and> unregisterThermalChangedCallback (Some 8)
        [\<lparr>callback = 7, is_filter_type = True, setting_type = CPU\<rparr>] =
       (\<lparr>code = FAILURE, debugMessage = ''The callback was not registered before''\<rparr>,
        [\<lparr>callback = 7, is_filter_type = True, setting_type = CPU\<rparr>])"
proof -
  let ?cbs = "[\<lparr>callback = 7, is_filter_type = True, setting_type = CPU\<rparr>]"
  have d: "distinct (map callback ?cbs)" by simp
  show ?thesis
    using d registry_conflicts_leave_state [OF d, of 7 False GPU False GPU None]
      registry_conflicts_leave_state [OF d, of 8 False GPU False GPU None]
    by simp
qed

subsection \<open>The callback of the 1.1 service\<close>

text \<open>
  Claim C10: the 1.1 service stores one callback. Registering a null callback changes
  nothing and notifies nobody; registering any other callback replaces the stored one
  without a check and sends it one notification (not throttling, the value unknown).
  After any sequence of registrations the stored callback is the last one that was not
  null.
\<close>

theorem single_callback_overwritten:
  "registerThermalCallback None st = st
   \<and> registerThermalCallback (Some c) st =
       \<lparr>sThermalCb = Some c,
        notified = notified st @
          [(c, False,
            \<lparr>type_1_0 = CPU_1_0, name_1_0 = ''thermal'', currentValue = NAN,
             throttlingThreshold = f32_of_int 100, shutdownThreshold = f32_of_int 120,
             vrThrottlingThreshold = NAN\<rparr>)]\<rparr>
   \<and> sThermalCb (foldl (\<lambda>s cb. registerThermalCallback cb s) st cbs) =
       last (sThermalCb st # filter (\<lambda>cb. cb \<noteq> None) cbs)"
  by (simp add: register_None fold_register)
     (simp add: registerThermalCallback_def Let_def finalize_unknown finalize_throttling
        finalize_shutdown THROTTLING_THRESHOLD_def SHUTDOWN_THRESHOLD_def)

subsection \<open>Active and total ticks\<close>

text \<open>
  Claim C9, as stated: every returned usage sample has \<open>total \<ge> active\<close>, whatever tick
  values are parsed, the sums being taken in unsigned 64-bit arithmetic. With one tick of
  user time and an idle counter of \<open>2\<^sup>6\<^sup>4 - 1\<close> both services return \<open>active = 1\<close> and
  \<open>total = 0\<close>.
\<close>

theorem total_wraps_below_active:
  "V2_0_getCpuUsages fs_stat_wrap =
     Inr (\<lparr>code = SUCCESS, debugMessage = []\<rparr>,
          [\<lparr>cpu_name = ''CPU0'', active = 1, total = 0, isOnline = True\<rparr>])
   \<and> V1_1_getCpuUsages fs_stat_wrap =
     (\<lparr>code = SUCCESS, debugMessage = []\<rparr>,
      [\<lparr>cpu_name = ''CPU0'', active = 1, total = 0, isOnline = True\<rparr>])
   \<and> total \<lparr>cpu_name = ''CPU0'', active = 1, total = 0, isOnline = True\<rparr>
       < active \<lparr>cpu_name = ''CPU0'', active = 1, total = 0, isOnline = True\<rparr>"
  by (simp add: eval_V2_wrap eval_V1_wrap)

text \<open>
  Claim C9, amended: every usage sample either service returns comes from a line of the
  counters file, with \<open>active = user + nice + system\<close> and \<open>total = active + idle\<close> taken
  modulo \<open>2\<^sup>6\<^sup>4\<close> over the four counters read from that line; \<open>total \<ge> active\<close> holds
  exactly when \<open>active + idle\<close> does not pass \<open>2\<^sup>6\<^sup>4 - 1\<close>.
\<close>

theorem total_ge_active_unless_wrapped:
  "(V2_0_getCpuUsages fs = Inr (st, us) \<and> u \<in> set us \<longrightarrow>
      (\<exists>f l sm1 cpuNum user nice system idle.
          files fs kCpuUsageFile = Some f \<and> l \<in> set (text_lines f)
          \<and> V2_0_counters l = Some (Inr (sm1, cpuNum, user, nice, system, idle))
          \<and> active u = user + nice + system \<and> total u = active u + idle
          \<and> (active u \<le> total u) = (unat (active u) + unat idle < 2 ^ 64)))
   \<and> (V1_1_getCpuUsages fs = (st', us') \<and> u' \<in> set us' \<longrightarrow>
      (\<exists>f l cpu_num user nice system idle.
          files fs CPU_USAGE_FILE = Some f \<and> l \<in> set (text_lines f)
          \<and> sscanf_cpu (l @ [CHR 0x0A]) = Some (cpu_num, user, nice, system, idle)
          \<and> active u' = user + nice + system \<and> total u' = active u' + idle
          \<and> (active u' \<le> total u') = (unat (active u') + unat idle < 2 ^ 64)))"
proof (intro conjI impI)
  assume a: "V2_0_getCpuUsages fs = Inr (st, us) \<and> u \<in> set us"
  then obtain f where f: "files fs kCpuUsageFile = Some f"
    by (cases "files fs kCpuUsageFile") (auto simp: V2_0_getCpuUsages_def)
  with a have "V2_0_cpu_loop fs (text_lines f) 0 [] = Inr us"
    by (auto simp: V2_0_getCpuUsages_def split: sum.splits)
  from V2_0_loop_members [OF this conjunct2 [OF a]]
  obtain l on0 on1 where l: "l \<in> set (text_lines f)"
    and line: "V2_0_cpu_line fs on0 l = Some (Inr (u, on1))"
    by auto
  from V2_0_cpu_line_counters [OF line]
  obtain sm1 cpuNum user nice system idle where
    "V2_0_counters l = Some (Inr (sm1, cpuNum, user, nice, system, idle))"
    "active u = user + nice + system" "total u = active u + idle"
    by blast
  with f l show "\<exists>f l sm1 cpuNum user nice system idle.
          files fs kCpuUsageFile = Some f \<and> l \<in> set (text_lines f)
          \<and> V2_0_counters l = Some (Inr (sm1, cpuNum, user, nice, system, idle))
          \<and> active u = user + nice + system \<and> total u = active u + idle
          \<and> (active u \<le> total u) = (unat (active u) + unat idle < 2 ^ 64)"
    using wrap_iff [of "active u" idle]
    by (intro exI [of _ f] exI [of _ l] exI [of _ sm1] exI [of _ cpuNum] exI [of _ user]
        exI [of _ nice] exI [of _ system] exI [of _ idle]) simp
next
  assume a: "V1_1_getCpuUsages fs = (st', us') \<and> u' \<in> set us'"
  then obtain f where f: "files fs CPU_USAGE_FILE = Some f"
    by (cases "files fs CPU_USAGE_FILE") (auto simp: V1_1_getCpuUsages_def)
  with a have "u' \<in> set (snd (V1_1_cpu_loop fs (text_lines f) []))"
    by (auto simp: V1_1_getCpuUsages_def)
  from V1_1_loop_members [OF this]
  obtain l where l: "l \<in> set (text_lines f)" and line: "V1_1_cpu_line fs l = Sample u'"
    by auto
  from V1_1_cpu_line_counters [OF line]
  obtain cpu_num user nice system idle where
    "sscanf_cpu (l @ [CHR 0x0A]) = Some (cpu_num, user, nice, system, idle)"
    "active u' = user + nice + system" "total u' = active u' + idle"
    by blast
  with f l show "\<exists>f l cpu_num user nice system idle.
          files fs CPU_USAGE_FILE = Some f \<and> l \<in> set (text_lines f)
          \<and> sscanf_cpu (l @ [CHR 0x0A]) = Some (cpu_num, user, nice, system, idle)
          \<and> active u' = user + nice + system \<and> total u' = active u' + idle
          \<and> (active u' \<le> total u') = (unat (active u') + unat idle < 2 ^ 64)"
    using wrap_iff [of "active u'" idle]
    by (intro exI [of _ f] exI [of _ l] exI [of _ cpu_num] exI [of _ user]
        exI [of _ nice] exI [of _ system] exI [of _ idle]) simp
qed

theorem total_ge_active_witness:
  "(\<exists>f l sm1 cpuNum user nice system idle.
      files fs_stat kCpuUsageFile = Some f \<and> l \<in> set (text_lines f)
      \<and> V2_0_counters l = Some (Inr (sm1, cpuNum, user, nice, system, idle))
      \<and> (60 :: 64 word) = user + nice + system \<and> (100 :: 64 word) = 60 + idle
      \<and> unat (60 :: 64 word) + unat idle < 2 ^ 64)
   \<and> (\<exists>f l cpu_num user nice system idle.
      files fs_stat CPU_USAGE_FILE = Some f \<and> l \<in> set (text_lines f)
      \<and> sscanf_cpu (l @ [CHR 0x0A]) = Some (cpu_num, user, nice, system, idle)
      \<and> (60 :: 64 word) = user + nice + system \<and> (100 :: 64 word) = 60 + idle
      \<and> unat (60 :: 64 word) + unat idle < 2 ^ 64)"
  using total_ge_active_unless_wrapped
    [of fs_stat "\<lparr>code = SUCCESS, debugMessage = []\<rparr>"
        "[\<lparr>cpu_name = ''CPU0'', active = 60, total = 100, isOnline = True\<rparr>,
          \<lparr>cpu_name = ''CPU1'', active = 6, total = 10, isOnline = True\<rparr>]"
        "\<lparr>cpu_name = ''CPU0'', active = 60, total = 100, isOnline = True\<rparr>"
        "\<lparr>code = SUCCESS, debugMessage = []\<rparr>"
        "[\<lparr>cpu_name = ''CPU0'', active = 60, total = 100, isOnline = True\<rparr>,
          \<lparr>cpu_name = ''CPU1'', active = 6, total = 10, isOnline = True\<rparr>]"
        "\<lparr>cpu_name = ''CPU0'', active = 60, total = 100, isOnline = True\<rparr>"]
  by (simp add: eval_V2_stat eval_V1_stat)

subsection \<open>The status of the usage query\<close>




subsection \<open>A per-core line that does not parse\<close>




subsection \<open>The message for no zone\<close>

text \<open>
  Claim C3: when no zone is found, \<^verbatim>\<open>getTemperatures\<close> returns a failure with the message
  \<^verbatim>\<open>No such file or directory\<close> and an empty sequence. Status and sequence are as
  claimed. The message is built as \<^verbatim>\<open>strerror(-ENOENT)\<close>: the error number is negated,
  and the text is \<^verbatim>\<open>Unknown error -2\<close> in both services, where \<^verbatim>\<open>strerror(ENOENT)\<close> is the
  text of the claim.
\<close>

theorem no_zone_message:
  "V1_1_getTemperatures fs_no_zone =
     Inr (\<lparr>code = FAILURE, debugMessage = ''Unknown error -2''\<rparr>, [])
   \<and> V2_0_getTemperatures fs_no_zone =
     Inr (\<lparr>code = FAILURE, debugMessage = ''Unknown error -2''\<rparr>, [])
   \<and> strerror ENOENT = ''No such file or directory''"
  by (simp add: eval_V1_no_zone eval_V2_no_zone strerror_positive)

subsection \<open>One sample per readable zone\<close>

text \<open>
  Claim C7: \<^verbatim>\<open>getTemperatures\<close> returns one sample for each zone whose \<^verbatim>\<open>temp\<close> and
  \<^verbatim>\<open>type\<close> files can be read, and skips every other zone without failing. With one zone
  whose two files can be read, the 2.0 service returns a failure and no sample, since the
  stream of the \<^verbatim>\<open>temp\<close> file is opened twice (\<open>double_open_fails\<close>,
  \<open>helper_loop_unchanged\<close>); the 1.1 service returns the sample. With the \<^verbatim>\<open>type\<close> file
  missing, the 1.1 service hands a null stream to \<^verbatim>\<open>fscanf\<close>.
\<close>

theorem readable_zone_gives_no_sample:
  "V2_0_getTemperatures fs_zone =
     Inr (\<lparr>code = FAILURE, debugMessage = ''Unknown error -2''\<rparr>, [])
   \<and> V1_1_getTemperatures fs_zone =
     Inr (\<lparr>code = SUCCESS, debugMessage = []\<rparr>,
          [\<lparr>type_1_0 = CPU_1_0, name_1_0 = ''cpu-thermal'', currentValue = 0x42340000,
            throttlingThreshold = f32_of_int 100, shutdownThreshold = f32_of_int 120,
            vrThrottlingThreshold = NAN\<rparr>])
   \<and> V1_1_getTemperatures fs_zone_no_type = Inl null_stream"
  by (simp add: eval_V2_zone eval_V1_zone eval_V1_no_type)

subsection \<open>The sentinel never leaves the service\<close>

text \<open>
  Claim C2: no field of a sample that \<^verbatim>\<open>getTemperatures\<close> returns equals the sentinel
  \<^verbatim>\<open>UNKNOWN_TEMPERATURE\<close>, and a field whose underlying value is the sentinel is
  not-a-number. This holds of the sample either service fills in for any label and any
  reading, and so of every sample either \<^verbatim>\<open>getTemperatures\<close> returns: the thresholds pass
  through \<^verbatim>\<open>finalizeTemperature\<close>, and the current value, a reading divided by 1000, is
  out of reach of \<^verbatim>\<open>-FLT_MAX\<close>.
\<close>

theorem no_field_is_the_sentinel:
  assumes "t = V2_0_temperature name temp \<or> t = V1_1_temperature name temp
           \<or> (\<exists>st ts. V2_0_getTemperatures fs = Inr (st, ts) \<and> t \<in> set ts)
           \<or> (\<exists>st ts. V1_1_getTemperatures fs = Inr (st, ts) \<and> t \<in> set ts)"
  shows "\<not> raw_sentinel (currentValue t) \<and> \<not> raw_sentinel (throttlingThreshold t)
         \<and> \<not> raw_sentinel (shutdownThreshold t) \<and> \<not> raw_sentinel (vrThrottlingThreshold t)
         \<and> vrThrottlingThreshold t = NAN
         \<and> finalizeTemperature UNKNOWN_TEMPERATURE = NAN"
proof -
  from assms consider (a) "t = V2_0_temperature name temp" | (b) "t = V1_1_temperature name temp"
    | (c) st ts where "V2_0_getTemperatures fs = Inr (st, ts)" "t \<in> set ts"
    | (d) st ts where "V1_1_getTemperatures fs = Inr (st, ts)" "t \<in> set ts"
    by blast
  then have "\<not> raw_sentinel (currentValue t) \<and> \<not> raw_sentinel (throttlingThreshold t)
         \<and> \<not> raw_sentinel (shutdownThreshold t) \<and> \<not> raw_sentinel (vrThrottlingThreshold t)
         \<and> vrThrottlingThreshold t = NAN"
  proof cases
    case a
    then show ?thesis
      by (simp add: V2_0_temperature_def raw_sentinel_finalize raw_sentinel_div finalize_unknown
          raw_sentinel_NAN)
  next
    case b
    then show ?thesis
      by (simp add: V1_1_temperature_def raw_sentinel_finalize raw_sentinel_div finalize_unknown
          raw_sentinel_NAN)
  next
    case c
    then show ?thesis
      by (auto simp: V2_0_getTemperatures_fails split: option.splits)
  next
    case d
    then obtain entries where "V1_1_temperatures_loop fs entries [] = Inr ts"
      by (auto simp: V1_1_getTemperatures_def split: option.splits sum.splits)
    from V1_1_temperatures_members [OF this d(2)]
    obtain n x where "t = V1_1_temperature n x" by auto
    then show ?thesis
      by (simp add: V1_1_temperature_def raw_sentinel_finalize raw_sentinel_div finalize_unknown
          raw_sentinel_NAN)
  qed
  then show ?thesis by (simp add: finalize_unknown raw_sentinel_NAN)
qed

theorem no_field_is_the_sentinel_witness:
  "\<not> raw_sentinel 0x42340000 \<and> \<not> raw_sentinel (f32_of_int 100)
   \<and> \<not> raw_sentinel (f32_of_int 120) \<and> \<not> raw_sentinel NAN
   \<and> finalizeTemperature UNKNOWN_TEMPERATURE = NAN"
proof -
  let ?t = "\<lparr>type_1_0 = CPU_1_0, name_1_0 = ''cpu-thermal'', currentValue = 0x42340000,
            throttlingThreshold = f32_of_int 100, shutdownThreshold = f32_of_int 120,
            vrThrottlingThreshold = NAN\<rparr>"
  have "\<exists>st ts. V1_1_getTemperatures fs_zone = Inr (st, ts) \<and> ?t \<in> set ts"
    by (simp add: eval_V1_zone)
  then have "?t = V2_0_temperature [] 0 \<or> ?t = V1_1_temperature [] 0
           \<or> (\<exists>st ts. V2_0_getTemperatures fs_zone = Inr (st, ts) \<and> ?t \<in> set ts)
           \<or> (\<exists>st ts. V1_1_getTemperatures fs_zone = Inr (st, ts) \<and> ?t \<in> set ts)"
    by blast
  from no_field_is_the_sentinel [OF this] show ?thesis by simp
qed

end
